theory Spec2Isabelle
  imports Complex_Main
begin

section \<open>JavaScript built-ins used by the handlers\<close>

text \<open>
  A string is its UTF-8 bytes. \<open>String.prototype.trim\<close> removes white space and
  line terminators at both ends: tab, line feed, vertical tab, form feed, carriage
  return, space, U+00A0, U+1680, U+2000 to U+200A, U+2028, U+2029, U+202F, U+205F,
  U+3000 and U+FEFF, listed here by their encodings.
\<close>

definition white_space :: "string list" where
  "white_space =
     [[CHR 0x09], [CHR 0x0A], [CHR 0x0B], [CHR 0x0C], [CHR 0x0D], [CHR 0x20],
      [CHR 0xC2, CHR 0xA0],
      [CHR 0xE1, CHR 0x9A, CHR 0x80],
      [CHR 0xE2, CHR 0x80, CHR 0x80], [CHR 0xE2, CHR 0x80, CHR 0x81],
      [CHR 0xE2, CHR 0x80, CHR 0x82], [CHR 0xE2, CHR 0x80, CHR 0x83],
      [CHR 0xE2, CHR 0x80, CHR 0x84], [CHR 0xE2, CHR 0x80, CHR 0x85],
      [CHR 0xE2, CHR 0x80, CHR 0x86], [CHR 0xE2, CHR 0x80, CHR 0x87],
      [CHR 0xE2, CHR 0x80, CHR 0x88], [CHR 0xE2, CHR 0x80, CHR 0x89],
      [CHR 0xE2, CHR 0x80, CHR 0x8A],
      [CHR 0xE2, CHR 0x80, CHR 0xA8], [CHR 0xE2, CHR 0x80, CHR 0xA9],
      [CHR 0xE2, CHR 0x80, CHR 0xAF],
      [CHR 0xE2, CHR 0x81, CHR 0x9F],
      [CHR 0xE3, CHR 0x80, CHR 0x80],
      [CHR 0xEF, CHR 0xBB, CHR 0xBF]]"

text \<open>The first of the given codes that the string starts with.\<close>

definition leading_code :: "string list \<Rightarrow> string \<Rightarrow> string option" where
  "leading_code codes s = find (\<lambda>w. w \<noteq> [] \<and> take (length w) s = w) codes"

function strip_leading :: "string list \<Rightarrow> string \<Rightarrow> string" where
  "strip_leading codes s =
     (case leading_code codes s of
        None \<Rightarrow> s
      | Some w \<Rightarrow> strip_leading codes (drop (length w) s))"
  by pat_completeness auto
termination
proof (relation "measure (\<lambda>(codes, s). length s)")
  show "wf (measure (\<lambda>(codes :: string list, s :: string). length s))"
    by simp
next
  fix codes :: "string list" and s w :: string
  assume "leading_code codes s = Some w"
  then have w: "w \<noteq> []" "take (length w) s = w"
    by (auto simp: leading_code_def find_Some_iff)
  have "length (take (length w) s) = length w"
    using w(2) by simp
  then have "length w \<le> length s"
    by simp
  with w(1) have "length s - length w < length s"
    by (cases w) auto
  then show "((codes, drop (length w) s), (codes, s)) \<in> measure (\<lambda>(codes, s). length s)"
    by simp
qed

declare strip_leading.simps [simp del]

definition trim :: "string \<Rightarrow> string" where
  "trim s = rev (strip_leading (map rev white_space) (rev (strip_leading white_space s)))"

text \<open>
  \<open>String.prototype.length\<close> counts UTF-16 code units: one for a character of up to
  three bytes, two for a character of four bytes. A continuation byte adds nothing.
\<close>

definition utf16_units :: "char \<Rightarrow> nat" where
  "utf16_units c =
     (if (of_char c :: nat) < 0x80 then 1
      else if (of_char c :: nat) < 0xC0 then 0
      else if (of_char c :: nat) < 0xF0 then 1
      else 2)"

definition js_length :: "string \<Rightarrow> nat" where
  "js_length s = sum_list (map utf16_units s)"

text \<open>A printable ASCII character other than the space.\<close>

definition plain :: "char \<Rightarrow> bool" where
  "plain c = (0x21 \<le> (of_char c :: nat) \<and> (of_char c :: nat) \<le> 0x7E)"

text \<open>
  \<open>toLowerCase\<close> maps the letters A to Z and leaves every other byte alone; the case
  mappings of letters outside ASCII are not modelled.
\<close>

definition lower_char :: "char \<Rightarrow> char" where
  "lower_char c =
     (case map_of (zip ''ABCDEFGHIJKLMNOPQRSTUVWXYZ'' ''abcdefghijklmnopqrstuvwxyz'') c of
        Some d \<Rightarrow> d
      | None \<Rightarrow> c)"

definition toLowerCase :: "string \<Rightarrow> string" where
  "toLowerCase s = map lower_char s"

text \<open>
  A JavaScript number as the pagination code sees it: \<open>NaN\<close> or an integer. Doubles
  are exact on integers of magnitude below \<open>2 ^ 53\<close>; beyond that the source rounds and
  the model does not.
\<close>

datatype jsnum = NaN | Num int

text \<open>
  \<open>parseInt(string)\<close> with no radix: skip leading white space (the characters
  \<open>trim\<close> removes), read an optional sign,
  take radix 16 after a \<open>0x\<close> or \<open>0X\<close> prefix and radix 10 otherwise, read the longest run
  of digits and ignore the rest. No digit at all gives \<open>NaN\<close>.
\<close>

definition digit_of :: "char \<Rightarrow> nat option" where
  "digit_of c =
     map_of (zip ''0123456789abcdef'' [0 ..< 16] @ zip ''ABCDEF'' [10 ..< 16]) c"

definition is_digit :: "nat \<Rightarrow> char \<Rightarrow> bool" where
  "is_digit radix c = (case digit_of c of None \<Rightarrow> False | Some d \<Rightarrow> d < radix)"

definition digits_value :: "nat \<Rightarrow> string \<Rightarrow> nat" where
  "digits_value radix ds = foldl (\<lambda>a c. a * radix + the (digit_of c)) 0 ds"

definition parseInt :: "string \<Rightarrow> jsnum" where
  "parseInt str =
     (let s = strip_leading white_space str;
          neg = (take 1 s = ''-'');
          s1 = (if take 1 s = ''-'' \<or> take 1 s = ''+'' then drop 1 s else s);
          hex = (take 2 s1 = ''0x'' \<or> take 2 s1 = ''0X'');
          radix = (if hex then 16 else 10);
          s2 = (if hex then drop 2 s1 else s1);
          ds = takeWhile (is_digit radix) s2
      in if ds = [] then NaN
         else Num ((if neg then - 1 else 1) * int (digits_value radix ds)))"

text \<open>\<open>Math.max\<close> and \<open>Math.min\<close> of two numbers: \<open>NaN\<close> if either is \<open>NaN\<close>.\<close>

fun Math_max :: "jsnum \<Rightarrow> jsnum \<Rightarrow> jsnum" where
  "Math_max (Num a) (Num b) = Num (max a b)"
| "Math_max _ _ = NaN"

fun Math_min :: "jsnum \<Rightarrow> jsnum \<Rightarrow> jsnum" where
  "Math_min (Num a) (Num b) = Num (min a b)"
| "Math_min _ _ = NaN"

fun js_minus :: "jsnum \<Rightarrow> jsnum \<Rightarrow> jsnum" where
  "js_minus (Num a) (Num b) = Num (a - b)"
| "js_minus _ _ = NaN"

fun js_times :: "jsnum \<Rightarrow> jsnum \<Rightarrow> jsnum" where
  "js_times (Num a) (Num b) = Num (a * b)"
| "js_times _ _ = NaN"

section \<open>Rate limiter\<close>

text \<open>
  \<open>rateLimiter\<close> is the process-wide \<open>Map\<close> from client address to the list of
  request times (milliseconds, \<open>Date.now()\<close>), oldest first. The middleware either
  calls \<open>next()\<close> or answers 429.
\<close>

type_synonym rate_store = "string \<rightharpoonup> int list"

datatype rate_outcome =
    Next
  | TooMany (rl_status: nat) (rl_message: string) (rl_retryAfter: int)

definition rateLimit :: "int \<Rightarrow> int \<Rightarrow> rate_store \<Rightarrow> string \<Rightarrow> int \<Rightarrow> rate_store \<times> rate_outcome" where
  "rateLimit maxRequests windowMs rateLimiter clientIP now =
     (let windowStart = now - windowMs;
          cleaned =
            (case rateLimiter clientIP of
               None \<Rightarrow> rateLimiter
             | Some requests \<Rightarrow>
                 rateLimiter(clientIP \<mapsto> filter (\<lambda>time. time > windowStart) requests));
          currentRequests = (case cleaned clientIP of None \<Rightarrow> [] | Some requests \<Rightarrow> requests)
      in if int (length currentRequests) \<ge> maxRequests then
           (cleaned,
            TooMany 429 ''Too many requests. Please try again later.''
              \<lceil>of_int windowMs / (1000 :: rat)\<rceil>)
         else (cleaned(clientIP \<mapsto> currentRequests @ [now]), Next))"

text \<open>The timestamps on record for a client (none when the map has no entry).\<close>

definition recorded :: "rate_store \<Rightarrow> string \<Rightarrow> int list" where
  "recorded rateLimiter clientIP =
     (case rateLimiter clientIP of None \<Rightarrow> [] | Some requests \<Rightarrow> requests)"

text \<open>
  A client issuing requests at the given times, one after the other: the final map if
  every one of them was let through, \<open>None\<close> as soon as one is answered 429.
\<close>

fun all_allowed :: "int \<Rightarrow> int \<Rightarrow> string \<Rightarrow> int list \<Rightarrow> rate_store \<Rightarrow> rate_store option" where
  "all_allowed maxRequests windowMs clientIP [] rateLimiter = Some rateLimiter"
| "all_allowed maxRequests windowMs clientIP (t # ts) rateLimiter =
     (case rateLimit maxRequests windowMs rateLimiter clientIP t of
        (rl', Next) \<Rightarrow> all_allowed maxRequests windowMs clientIP ts rl'
      | (rl', TooMany _ _ _) \<Rightarrow> None)"

section \<open>Resilience helpers (timeout and retry)\<close>

text \<open>
  Time is virtual, in milliseconds from the moment the wrapper is called. The wrapped
  \<open>fn\<close> is described by what its successive calls do: call number \<open>i\<close> (from 0)
  never settles, resolves after \<open>d\<close> ms, or rejects after \<open>d\<close> ms with a thrown
  value. A thrown value is \<open>undefined\<close>, \<open>null\<close>, or any other value, given by its
  message and its \<open>status\<close> property (\<open>None\<close> when it has none). \<open>TypeError\<close> is
  the error the engine raises when a property of \<open>undefined\<close> or \<open>null\<close> is read; it
  has no \<open>status\<close>.
\<close>

datatype thrown =
    Undefined
  | Null
  | Error (err_message: string) (err_status: "int option")
  | TypeError

fun status_of :: "thrown \<Rightarrow> int option" where
  "status_of (Error m status) = status"
| "status_of _ = None"

datatype 'a settled = Resolved 'a | Rejected thrown

datatype 'a invocation = Pending | Returns nat 'a | Throws nat thrown

type_synonym 'a operation = "nat \<Rightarrow> 'a invocation"

type_synonym 'a promise = "(nat \<times> 'a settled) option"

text \<open>
  A promise is the time at which it settles and what it settles to, or \<open>None\<close> if
  it never settles. A run of \<open>withRetry\<close> also records how often \<open>fn\<close> was
  called and the \<open>setTimeout\<close> delays it waited, in order.
\<close>

record 'a retry_run =
  outcome :: "'a promise"
  invocations :: nat
  sleeps :: "nat list"

text \<open>\<open>error.status && error.status >= 400 && error.status < 500\<close>\<close>

definition is_client_error :: "int option \<Rightarrow> bool" where
  "is_client_error status =
     (case status of None \<Rightarrow> False | Some st \<Rightarrow> st \<noteq> 0 \<and> st \<ge> 400 \<and> st < 500)"

text \<open>
  \<open>setTimeout(f, ms)\<close> waits \<open>ms\<close> milliseconds, and 1 millisecond when \<open>ms\<close> is
  below 1 or above 2147483647.
\<close>

definition timer_ms :: "nat \<Rightarrow> nat" where
  "timer_ms ms = (if ms < 1 \<or> 2147483647 < ms then 1 else ms)"

text \<open>
  The \<open>for\<close> loop of \<open>withRetry\<close> from index \<open>i\<close>, with \<open>lastError\<close>, the
  current time and the delays asked of \<open>setTimeout\<close> so far. In the \<open>catch\<close> block,
  reading \<open>error.status\<close> of \<open>undefined\<close> or \<open>null\<close> throws, which ends the loop.
\<close>

function retry_from ::
  "'a operation \<Rightarrow> nat \<Rightarrow> nat \<Rightarrow> nat \<Rightarrow> thrown \<Rightarrow> nat \<Rightarrow> nat list \<Rightarrow> 'a retry_run" where
  "retry_from fn maxRetries delay i lastError clock slept =
     (if i < maxRetries then
        (case fn i of
           Pending \<Rightarrow> \<lparr>outcome = None, invocations = Suc i, sleeps = slept\<rparr>
         | Returns d v \<Rightarrow>
             \<lparr>outcome = Some (clock + d, Resolved v), invocations = Suc i, sleeps = slept\<rparr>
         | Throws d error \<Rightarrow>
             if error = Undefined \<or> error = Null then
               \<lparr>outcome = Some (clock + d, Rejected TypeError),
                invocations = Suc i, sleeps = slept\<rparr>
             else if is_client_error (status_of error) then
               \<lparr>outcome = Some (clock + d, Rejected error),
                invocations = Suc i, sleeps = slept\<rparr>
             else if i < maxRetries - 1 then
               retry_from fn maxRetries delay (Suc i) error
                 (clock + d + timer_ms (delay * 2 ^ i)) (slept @ [delay * 2 ^ i])
             else
               retry_from fn maxRetries delay (Suc i) error (clock + d) slept)
      else \<lparr>outcome = Some (clock, Rejected lastError), invocations = i, sleeps = slept\<rparr>)"
  by pat_completeness auto
termination
  by (relation "measure (\<lambda>(fn, maxRetries, delay, i, lastError, clock, slept). maxRetries - i)") auto

declare retry_from.simps [simp del]

definition withRetry :: "'a operation \<Rightarrow> nat \<Rightarrow> nat \<Rightarrow> 'a retry_run" where
  "withRetry fn maxRetries delay = retry_from fn maxRetries delay 0 Undefined 0 []"

text \<open>
  \<open>Promise.race\<close> of the promise against a timer that rejects after \<open>timeoutMs\<close>:
  whichever settles first decides. The list holds the possible results: one, except
  when both settle at the same instant, where the order is the event loop's and both
  are listed.
\<close>

definition withTimeout :: "'a promise \<Rightarrow> nat \<Rightarrow> string \<Rightarrow> (nat \<times> 'a settled) list" where
  "withTimeout promise timeoutMs errorMessage =
     (case promise of
        None \<Rightarrow> [(timer_ms timeoutMs, Rejected (Error errorMessage None))]
      | Some (t, r) \<Rightarrow>
          (if t \<le> timer_ms timeoutMs then [(t, r)] else []) @
          (if timer_ms timeoutMs \<le> t
           then [(timer_ms timeoutMs, Rejected (Error errorMessage None))] else []))"

text \<open>The \<open>timeoutMs\<close> argument defaults to 20000 when it is not passed.\<close>

definition dbOperationWithTimeout :: "'a operation \<Rightarrow> nat option \<Rightarrow> (nat \<times> 'a settled) list" where
  "dbOperationWithTimeout operation timeoutMs =
     withTimeout (outcome (withRetry operation 2 500))
       (case timeoutMs of None \<Rightarrow> 20000 | Some ms \<Rightarrow> ms)
       ''Database operation timeout''"

text \<open>Example operations: what every call of each of them does.\<close>

definition always_bad_request :: "nat operation" where
  "always_bad_request i = Throws 5 (Error ''Bad request'' (Some 400))"

definition always_unavailable :: "nat operation" where
  "always_unavailable i = Throws 5 (Error ''Service unavailable'' (Some 503))"

definition rejects_undefined :: "nat operation" where
  "rejects_undefined i = Throws 5 Undefined"

definition resolves_42 :: "nat operation" where
  "resolves_42 i = Returns 7 42"

definition never_settles :: "nat operation" where
  "never_settles i = Pending"

section \<open>Menu list endpoint: the query that getAllMenu builds\<close>

text \<open>
  \<open>req.query\<close>: each parameter is absent or a string.
\<close>

record list_params =
  qp_q :: "string option"
  qp_category :: "string option"
  qp_isAvailable :: "string option"
  qp_minPrice :: "string option"
  qp_maxPrice :: "string option"
  qp_sortBy :: "string option"
  qp_sortOrder :: "string option"
  qp_page :: "string option"
  qp_limit :: "string option"
  qp_fields :: "string option"
  qp_includeMeta :: "string option"

definition no_params :: list_params where
  "no_params =
     \<lparr>qp_q = None, qp_category = None, qp_isAvailable = None, qp_minPrice = None,
      qp_maxPrice = None, qp_sortBy = None, qp_sortOrder = None, qp_page = None,
      qp_limit = None, qp_fields = None, qp_includeMeta = None\<rparr>"

text \<open>
  What the handler hands to \<open>Menu.find(query).sort(sort).skip(skip).limit(limitNum)\<close>.
  The \<open>sort\<close> object is a list of keys with their order: a direction (1 or -1) or the
  text-search score. The price range (parsed by \<open>parseFloat\<close>) and the field
  projection are left out of the record.
\<close>

datatype sort_value = Direction int | TextScore

record list_plan =
  query_text :: "string option"
  query_category :: "string option"
  query_isAvailable :: "bool option"
  sort_spec :: "(string \<times> sort_value) list"
  pageNum :: jsnum
  limitNum :: jsnum
  skip :: jsnum

definition validSortFields :: "string list" where
  "validSortFields = [''name'', ''price'', ''createdAt'', ''updatedAt'', ''category'']"

text \<open>\<open>q && q.trim() !== ''\<close>\<close>

definition searching :: "string option \<Rightarrow> bool" where
  "searching q = (case q of None \<Rightarrow> False | Some s \<Rightarrow> s \<noteq> '''' \<and> trim s \<noteq> '''')"

definition getAllMenu_plan :: "list_params \<Rightarrow> list_plan" where
  "getAllMenu_plan p =
     (let q = qp_q p;
          category = qp_category p;
          isAvailable = qp_isAvailable p;
          sortBy = (case qp_sortBy p of None \<Rightarrow> ''createdAt'' | Some s \<Rightarrow> s);
          sortOrder = (case qp_sortOrder p of None \<Rightarrow> ''desc'' | Some s \<Rightarrow> s);
          page = (case qp_page p of None \<Rightarrow> ''1'' | Some s \<Rightarrow> s);
          limit = (case qp_limit p of None \<Rightarrow> ''10'' | Some s \<Rightarrow> s);
          sort =
            (if searching q then [(''score'', TextScore), (''createdAt'', Direction (- 1))]
             else
               (let sortField = (if sortBy \<in> set validSortFields then sortBy else ''createdAt'');
                    sortDirection = (if sortOrder = ''asc'' then 1 else - 1)
                in [(sortField, Direction sortDirection)]));
          pageNum = Math_max (Num 1) (parseInt page);
          limitNum = Math_min (Num 50) (Math_max (Num 1) (parseInt limit));
          skip = js_times (js_minus pageNum (Num 1)) limitNum
      in \<lparr>query_text = (if searching q then map_option trim q else None),
          query_category =
            (case category of
               None \<Rightarrow> None
             | Some c \<Rightarrow> if c = '''' then None else Some (trim (toLowerCase c))),
          query_isAvailable = map_option (\<lambda>v. v = ''true'') isAvailable,
          sort_spec = sort,
          pageNum = pageNum,
          limitNum = limitNum,
          skip = skip\<rparr>)"

section \<open>Request bodies and responses\<close>

text \<open>
  A JSON value where the handlers test truthiness, \<open>typeof\<close> or a property.
  \<open>JArray\<close> is an array and \<open>JObject\<close> any other object; the content of an object
  is never inspected, and where a handler reads a property of one (\<open>length\<close>,
  \<open>trim\<close>) the object has none of that name. Numbers are the exact rationals that
  the finite doubles of a parsed JSON body are.
\<close>

datatype jsval =
    JUndefined
  | JNull
  | JBool bool
  | JNum rat
  | JStr string
  | JArray "jsval list"
  | JObject

definition truthy :: "jsval \<Rightarrow> bool" where
  "truthy v =
     (case v of
        JUndefined \<Rightarrow> False
      | JNull \<Rightarrow> False
      | JBool b \<Rightarrow> b
      | JNum n \<Rightarrow> n \<noteq> 0
      | JStr s \<Rightarrow> s \<noteq> []
      | JArray xs \<Rightarrow> True
      | JObject \<Rightarrow> True)"

text \<open>Truthiness of a field that is absent or a string.\<close>

definition present :: "string option \<Rightarrow> bool" where
  "present v = (case v of None \<Rightarrow> False | Some s \<Rightarrow> s \<noteq> '''')"

text \<open>
  An entry of the \<open>errors\<close> array of a response: a message written in this
  repository, or the library's built-in message of a validator that the schema
  declares without one (named by path and validator kind).
\<close>

datatype vmsg = Msg string | Builtin string string

text \<open>
  Every response is \<open>res.status(status).json({success, message, errors, ...})\<close>; the
  payload (\<open>data\<close>, or \<open>token\<close> and \<open>user\<close>) is \<open>payload\<close>.
\<close>

record 'a response =
  status :: nat
  success :: bool
  message :: "string option"
  errors :: "vmsg list option"
  payload :: "'a option"

definition failure :: "nat \<Rightarrow> string \<Rightarrow> 'a response" where
  "failure code msg =
     \<lparr>status = code, success = False, message = Some msg, errors = None, payload = None\<rparr>"

definition validation_failure :: "vmsg list \<Rightarrow> 'a response" where
  "validation_failure errs =
     \<lparr>status = 400, success = False, message = Some ''Validation failed'',
      errors = Some errs, payload = None\<rparr>"

text \<open>
  A collection of the document store with the log of the model calls made on it
  (the name of the call and the key or the filter values it was given), oldest first.
\<close>

datatype db_call =
    FindOne string
  | FindOneWhere "jsval list"
  | Create string
  | FindById string
  | FindByIdAndUpdate string
  | FindByIdAndDelete string

record 'd collection =
  docs :: "'d list"
  calls :: "db_call list"

text \<open>
  What a call into a library threw: a schema validation error with its messages, a
  duplicate key under a unique index, or anything else.
\<close>

datatype db_error = ValidationError "vmsg list" | DuplicateKey | OtherError

definition find_first :: "('d \<Rightarrow> bool) \<Rightarrow> 'd list \<Rightarrow> 'd option" where
  "find_first P ds = (case filter P ds of [] \<Rightarrow> None | d # _ \<Rightarrow> Some d)"

section \<open>Menu catalog: schema\<close>

record nutritional =
  calories :: "rat option"
  protein :: "rat option"
  carbs :: "rat option"
  fat :: "rat option"

text \<open>
  The body of a create request. \<open>price\<close> is any JSON value, as the handler tests its
  type; the other fields are absent or of the JSON type the schema declares for them.
\<close>

record menu_body =
  b_name :: "string option"
  b_price :: jsval
  b_description :: "string option"
  b_featuredImage :: "string option"
  b_images :: "string list option"
  b_isAvailable :: "bool option"
  b_ingredients :: "string option"
  b_category :: "string option"
  b_preparationTime :: "rat option"
  b_nutritionalInfo :: "nutritional option"
  b_allergens :: "string list option"
  b_spicyLevel :: "rat option"

definition empty_body :: menu_body where
  "empty_body =
     \<lparr>b_name = None, b_price = JUndefined, b_description = None, b_featuredImage = None,
      b_images = None, b_isAvailable = None, b_ingredients = None, b_category = None,
      b_preparationTime = None, b_nutritionalInfo = None, b_allergens = None,
      b_spicyLevel = None\<rparr>"

text \<open>The body of an update request may also carry the fields the handler deletes.\<close>

record menu_updates = menu_body +
  up_id :: "string option"
  up_createdAt :: "string option"
  up_updatedAt :: "string option"

definition empty_updates :: menu_updates where
  "empty_updates =
     \<lparr>b_name = None, b_price = JUndefined, b_description = None, b_featuredImage = None,
      b_images = None, b_isAvailable = None, b_ingredients = None, b_category = None,
      b_preparationTime = None, b_nutritionalInfo = None, b_allergens = None,
      b_spicyLevel = None, up_id = None, up_createdAt = None, up_updatedAt = None\<rparr>"

text \<open>\<open>menuData\<close>, the object handed to \<open>Menu.create\<close>.\<close>

record menu_data =
  md_name :: string
  md_price :: rat
  md_description :: "string option"
  md_featuredImage :: "string option"
  md_images :: "string list"
  md_isAvailable :: bool
  md_ingredients :: "string option"
  md_category :: string
  md_preparationTime :: "rat option"
  md_nutritionalInfo :: "nutritional option"
  md_allergens :: "string list option"
  md_spicyLevel :: "rat option"

record menu_doc =
  m_id :: string
  m_name :: string
  m_price :: rat
  m_description :: "string option"
  m_featuredImage :: "string option"
  m_images :: "string list"
  m_isAvailable :: bool
  m_ingredients :: "string option"
  m_category :: string
  m_preparationTime :: "rat option"
  m_nutritionalInfo :: "nutritional option"
  m_allergens :: "string list"
  m_spicyLevel :: rat
  m_createdAt :: int
  m_updatedAt :: int

type_synonym menu_store = "menu_doc collection"

text \<open>The \<open>enum\<close> of the schema's \<open>category\<close> path and its message.\<close>

definition category_enum :: "string list" where
  "category_enum =
     [''SOUPS & SWALLOW'', ''APPETIZERS'', ''DESSERT'', ''BEVERAGE'', ''LIGHT FOOD OPTIONS'',
      ''BREAKFAST MENU'', ''PEPPERSOUP CORNER'', ''SPECIAL'']"

definition category_enum_message :: string where
  "category_enum_message =
     ''Category must be one of: SOUPS & SWALLOW, APPETIZERS, DESSERT, BEVERAGE, LIGHT FOOD OPTIONS, BREAKFAST MENU, PEPPERSOUP CORNER ,SPECIAL''"

definition allergen_enum :: "string list" where
  "allergen_enum = [''gluten'', ''dairy'', ''nuts'', ''eggs'', ''soy'', ''shellfish'', ''fish'']"

text \<open>
  Building the document: the schema's setters run when a value is assigned
  (\<open>trim\<close> on name, ingredients, featuredImage, description; \<open>trim\<close> and
  \<open>lowercase\<close> on category) and its defaults fill what is absent.
\<close>

definition Menu_new :: "int \<Rightarrow> string \<Rightarrow> menu_data \<Rightarrow> menu_doc" where
  "Menu_new now newId menuData =
     \<lparr>m_id = newId,
      m_name = trim (md_name menuData),
      m_price = md_price menuData,
      m_description = map_option trim (md_description menuData),
      m_featuredImage = map_option trim (md_featuredImage menuData),
      m_images = md_images menuData,
      m_isAvailable = md_isAvailable menuData,
      m_ingredients = map_option trim (md_ingredients menuData),
      m_category = toLowerCase (trim (md_category menuData)),
      m_preparationTime = md_preparationTime menuData,
      m_nutritionalInfo = md_nutritionalInfo menuData,
      m_allergens = (case md_allergens menuData of None \<Rightarrow> [] | Some as \<Rightarrow> as),
      m_spicyLevel = (case md_spicyLevel menuData of None \<Rightarrow> 0 | Some l \<Rightarrow> l),
      m_createdAt = now,
      m_updatedAt = now\<rparr>"

text \<open>
  Validation on save: the validators of a path run on the value the setters left, in
  the order \<open>required\<close>, then as declared, and the first that fails gives the path's
  error. The errors are listed here in the order the schema declares the paths, with
  one entry for each failing nested or array path; the library's own order, and its
  entries for nested and array paths, may differ.
\<close>

definition below :: "string \<Rightarrow> rat \<Rightarrow> rat option \<Rightarrow> vmsg list" where
  "below path lo v = (case v of None \<Rightarrow> [] | Some x \<Rightarrow> if x < lo then [Builtin path ''min''] else [])"

definition Menu_validate :: "menu_doc \<Rightarrow> vmsg list" where
  "Menu_validate d =
     (if m_name d = '''' then [Msg ''Menu item name is required'']
      else if js_length (m_name d) < 2 then [Msg ''Name must be at least 2 characters long'']
      else if js_length (m_name d) > 100 then [Msg ''Name cannot exceed 100 characters'']
      else [])
     @ (if m_price d < 0 then [Msg ''Price cannot be negative''] else [])
     @ (if list_all (\<lambda>url. js_length (trim url) > 0) (m_images d) then []
        else [Msg ''All image URLs must be valid strings''])
     @ (case m_ingredients d of
          None \<Rightarrow> []
        | Some i \<Rightarrow>
            if js_length i > 500 then [Msg ''Ingredients description cannot exceed 500 characters'']
            else [])
     @ (case m_description d of
          None \<Rightarrow> []
        | Some t \<Rightarrow>
            if js_length t > 1000 then [Msg ''Description cannot exceed 1000 characters''] else [])
     @ (if m_category d = '''' then [Msg ''Category is required'']
        else if m_category d \<notin> set category_enum then [Msg category_enum_message]
        else [])
     @ (case m_preparationTime d of
          None \<Rightarrow> []
        | Some t \<Rightarrow>
            if t < 1 then [Msg ''Preparation time must be at least 1 minute'']
            else if t > 180 then [Msg ''Preparation time cannot exceed 3 hours'']
            else [])
     @ (case m_nutritionalInfo d of
          None \<Rightarrow> []
        | Some n \<Rightarrow>
            below ''nutritionalInfo.calories'' 0 (calories n)
            @ below ''nutritionalInfo.protein'' 0 (protein n)
            @ below ''nutritionalInfo.carbs'' 0 (carbs n)
            @ below ''nutritionalInfo.fat'' 0 (fat n))
     @ (if list_all (\<lambda>a. a \<in> set allergen_enum) (m_allergens d) then []
        else [Builtin ''allergens'' ''enum''])
     @ (if m_spicyLevel d < 0 then [Builtin ''spicyLevel'' ''min'']
        else if m_spicyLevel d > 5 then [Builtin ''spicyLevel'' ''max'']
        else [])"

text \<open>
  \<open>Menu.create\<close>: build, validate, insert. The unique index on \<open>name\<close> refuses a
  second document of the same name.
\<close>

definition Menu_create ::
  "menu_store \<Rightarrow> int \<Rightarrow> string \<Rightarrow> menu_data \<Rightarrow> menu_store \<times> (db_error + menu_doc)" where
  "Menu_create s now newId menuData =
     (let d = Menu_new now newId menuData;
          s1 = s\<lparr>calls := calls s @ [Create (md_name menuData)]\<rparr>
      in if Menu_validate d \<noteq> [] then (s1, Inl (ValidationError (Menu_validate d)))
         else if \<exists>e \<in> set (docs s). m_name e = m_name d then (s1, Inl DuplicateKey)
         else (s1\<lparr>docs := docs s @ [d]\<rparr>, Inr d))"

definition Menu_findOne_name :: "menu_store \<Rightarrow> string \<Rightarrow> menu_store \<times> menu_doc option" where
  "Menu_findOne_name s name =
     (s\<lparr>calls := calls s @ [FindOne name]\<rparr>, find_first (\<lambda>d. m_name d = trim name) (docs s))"

text \<open>An ObjectId is 12 bytes; its 24 hexadecimal digits are read without regard to case.\<close>

definition same_id :: "string \<Rightarrow> menu_doc \<Rightarrow> bool" where
  "same_id ident d = (toLowerCase (m_id d) = toLowerCase ident)"

definition Menu_findById :: "menu_store \<Rightarrow> string \<Rightarrow> menu_store \<times> menu_doc option" where
  "Menu_findById s ident =
     (s\<lparr>calls := calls s @ [FindById ident]\<rparr>, find_first (same_id ident) (docs s))"

definition Menu_findByIdAndDelete :: "menu_store \<Rightarrow> string \<Rightarrow> menu_store \<times> menu_doc option" where
  "Menu_findByIdAndDelete s ident =
     (case find_first (same_id ident) (docs s) of
        None \<Rightarrow> (s\<lparr>calls := calls s @ [FindByIdAndDelete ident]\<rparr>, None)
      | Some d \<Rightarrow>
          (s\<lparr>docs := remove1 d (docs s), calls := calls s @ [FindByIdAndDelete ident]\<rparr>, Some d))"

section \<open>Menu catalog: handlers\<close>

definition validCategories :: "string list" where
  "validCategories =
     [''SOUPS & SWALLOW'', ''BREAD LOVERS CORNER'', ''PEPPERSOUP CORNER'', ''APPETIZERS'',
      ''DESSERT'', ''BEVERAGE'', ''LIGHT FOOD OPTIONS'', ''BREAKFAST MENU'',
      ''PEPPERSOUP CORNER'', ''SPECIAL'']"

fun join :: "string \<Rightarrow> string list \<Rightarrow> string" where
  "join sep [] = ''''"
| "join sep [x] = x"
| "join sep (x # y # ys) = x @ sep @ join sep (y # ys)"

text \<open>
  \<open>now\<close> is the clock and \<open>newId\<close> the ObjectId generated for the document, if one is
  created.
\<close>

definition addItemMenu ::
  "menu_store \<Rightarrow> int \<Rightarrow> string \<Rightarrow> menu_body \<Rightarrow> menu_store \<times> menu_doc response" where
  "addItemMenu s now newId body =
     (if \<not> present (b_name body) \<or> \<not> truthy (b_price body) \<or> \<not> present (b_category body) then
        (s, failure 400 ''Please provide name, price, and category'')
      else
        (case b_price body of
           JNum price \<Rightarrow>
             if price < 0 then (s, failure 400 ''Price must be a positive number'')
             else
               (let name = the (b_name body); category = the (b_category body)
                in if category \<notin> set validCategories then
                     (s, failure 400 (''Category must be one of: '' @ join '', '' validCategories))
                   else
                     (case Menu_findOne_name s (trim name) of
                        (s1, Some alreadyExists) \<Rightarrow>
                          (s1, failure 409 ''Menu item with this name already exists'')
                      | (s1, None) \<Rightarrow>
                          (let menuData =
                                 \<lparr>md_name = trim name,
                                  md_price = price,
                                  md_description = map_option trim (b_description body),
                                  md_featuredImage = map_option trim (b_featuredImage body),
                                  md_images = (case b_images body of None \<Rightarrow> [] | Some is \<Rightarrow> is),
                                  md_isAvailable =
                                    (case b_isAvailable body of None \<Rightarrow> True | Some a \<Rightarrow> a),
                                  md_ingredients = map_option trim (b_ingredients body),
                                  md_category = category,
                                  md_preparationTime = b_preparationTime body,
                                  md_nutritionalInfo = b_nutritionalInfo body,
                                  md_allergens = b_allergens body,
                                  md_spicyLevel = b_spicyLevel body\<rparr>
                           in (case Menu_create s1 now newId menuData of
                                 (s2, Inr menu) \<Rightarrow>
                                   (s2,
                                    \<lparr>status = 201, success = True,
                                     message = Some ''Menu item created successfully'',
                                     errors = None, payload = Some menu\<rparr>)
                               | (s2, Inl (ValidationError errs)) \<Rightarrow> (s2, validation_failure errs)
                               | (s2, Inl _) \<Rightarrow> (s2, failure 500 ''Internal server error'')))))
         | _ \<Rightarrow> (s, failure 400 ''Price must be a positive number'')))"

text \<open>\<open>id.match(/^[0-9a-fA-F]{24}$/)\<close>\<close>

definition isObjectId :: "string \<Rightarrow> bool" where
  "isObjectId ident =
     (length ident = 24 \<and> list_all (\<lambda>c. c \<in> set ''0123456789abcdefABCDEF'') ident)"

definition getSingleMenuItem :: "menu_store \<Rightarrow> string \<Rightarrow> menu_store \<times> menu_doc response" where
  "getSingleMenuItem s ident =
     (if \<not> isObjectId ident then (s, failure 400 ''Invalid menu item ID'')
      else
        (case Menu_findById s ident of
           (s1, None) \<Rightarrow> (s1, failure 404 ''Menu item not found'')
         | (s1, Some menu) \<Rightarrow>
             (s1,
              \<lparr>status = 200, success = True, message = None, errors = None,
               payload = Some menu\<rparr>)))"

definition deleteSingleMenuItem :: "menu_store \<Rightarrow> string \<Rightarrow> menu_store \<times> menu_doc response" where
  "deleteSingleMenuItem s ident =
     (if \<not> isObjectId ident then (s, failure 400 ''Invalid menu item ID'')
      else
        (case Menu_findByIdAndDelete s ident of
           (s1, None) \<Rightarrow> (s1, failure 404 ''Menu item not found'')
         | (s1, Some menu) \<Rightarrow>
             (s1,
              \<lparr>status = 200, success = True,
               message = Some ''Menu item deleted successfully'', errors = None,
               payload = Some menu\<rparr>)))"

text \<open>
  \<open>Menu.findByIdAndUpdate(id, updates, {new: true, runValidators: true})\<close> is the
  library's; the handler is modelled for any such function \<open>findByIdAndUpdate\<close>, which
  returns the store after the call and a thrown error, no document, or the updated
  document.
\<close>

type_synonym menu_updater =
  "menu_store \<Rightarrow> string \<Rightarrow> menu_updates \<Rightarrow> menu_store \<times> (db_error + menu_doc option)"

definition editSingleMenuItem ::
  "menu_updater \<Rightarrow> menu_store \<Rightarrow> string \<Rightarrow> menu_updates \<Rightarrow> menu_store \<times> menu_doc response" where
  "editSingleMenuItem findByIdAndUpdate s ident body =
     (if \<not> isObjectId ident then (s, failure 400 ''Invalid menu item ID'')
      else
        (let updates = body\<lparr>up_id := None, up_createdAt := None, up_updatedAt := None\<rparr>
         in if b_price updates \<noteq> JUndefined
               \<and> (case b_price updates of JNum price \<Rightarrow> price < 0 | _ \<Rightarrow> True) then
              (s, failure 400 ''Price must be a positive number'')
            else if present (b_category updates)
               \<and> the (b_category updates) \<notin> set validCategories then
              (s, failure 400 (''Category must be one of: '' @ join '', '' validCategories))
            else
              (let updates1 = updates
                     \<lparr>b_name := (if present (b_name updates)
                                 then map_option trim (b_name updates) else b_name updates),
                      b_description := (if present (b_description updates)
                                 then map_option trim (b_description updates)
                                 else b_description updates),
                      b_featuredImage := (if present (b_featuredImage updates)
                                 then map_option trim (b_featuredImage updates)
                                 else b_featuredImage updates)\<rparr>
               in (case findByIdAndUpdate s ident updates1 of
                     (s1, Inl (ValidationError errs)) \<Rightarrow> (s1, validation_failure errs)
                   | (s1, Inl _) \<Rightarrow> (s1, failure 500 ''Internal server error'')
                   | (s1, Inr None) \<Rightarrow> (s1, failure 404 ''Menu item not found'')
                   | (s1, Inr (Some menu)) \<Rightarrow>
                       (s1,
                        \<lparr>status = 200, success = True,
                         message = Some ''Menu item updated successfully'', errors = None,
                         payload = Some menu\<rparr>)))))"

section \<open>Regular expressions of the user schema\<close>

text \<open>
  The \<open>match\<close> validators call \<open>RegExp.test\<close> with patterns anchored at both ends
  (\<open>^\<close> and \<open>$\<close>, no flags), so a value passes when the whole string is in the
  pattern's language. A pattern is matched by taking its residual after each
  character in turn.
\<close>

datatype pattern =
    Fail
  | Empty
  | OneOf string
  | Then pattern pattern
  | Or pattern pattern
  | Many pattern

fun can_be_empty :: "pattern \<Rightarrow> bool" where
  "can_be_empty Fail = False"
| "can_be_empty Empty = True"
| "can_be_empty (OneOf cs) = False"
| "can_be_empty (Then p q) = (can_be_empty p \<and> can_be_empty q)"
| "can_be_empty (Or p q) = (can_be_empty p \<or> can_be_empty q)"
| "can_be_empty (Many p) = True"

fun followed_by :: "pattern \<Rightarrow> pattern \<Rightarrow> pattern" where
  "followed_by Fail q = Fail"
| "followed_by Empty q = q"
| "followed_by p q = Then p q"

fun either :: "pattern \<Rightarrow> pattern \<Rightarrow> pattern" where
  "either Fail q = q"
| "either p Fail = p"
| "either p q = (if p = q then p else Or p q)"

fun after :: "char \<Rightarrow> pattern \<Rightarrow> pattern" where
  "after c Fail = Fail"
| "after c Empty = Fail"
| "after c (OneOf cs) = (if c \<in> set cs then Empty else Fail)"
| "after c (Then p q) =
     (if can_be_empty p then either (followed_by (after c p) q) (after c q)
      else followed_by (after c p) q)"
| "after c (Or p q) = either (after c p) (after c q)"
| "after c (Many p) = followed_by (after c p) (Many p)"

fun matches :: "pattern \<Rightarrow> string \<Rightarrow> bool" where
  "matches p [] = can_be_empty p"
| "matches p (c # s) = matches (after c p) s"

definition optional :: "pattern \<Rightarrow> pattern" where
  "optional p = Or p Empty"

definition one_or_more :: "pattern \<Rightarrow> pattern" where
  "one_or_more p = Then p (Many p)"

fun at_most :: "nat \<Rightarrow> pattern \<Rightarrow> pattern" where
  "at_most 0 p = Empty"
| "at_most (Suc n) p = optional (Then p (at_most n p))"

text \<open>\<open>\w\<close> and \<open>\d\<close>\<close>

definition word_char :: pattern where
  "word_char = OneOf ''abcdefghijklmnopqrstuvwxyzABCDEFGHIJKLMNOPQRSTUVWXYZ0123456789_''"

definition digit_char :: pattern where
  "digit_char = OneOf ''0123456789''"

text \<open>\<open>/^\w+([.-]?\w+)*@\w+([.-]?\w+)*(\.\w{2,3})+$/\<close>\<close>

definition email_pattern :: pattern where
  "email_pattern =
     (let words = Then (one_or_more word_char)
                    (Many (Then (optional (OneOf ''.-'')) (one_or_more word_char)))
      in Then words (Then (OneOf ''@'') (Then words
           (one_or_more
              (Then (OneOf ''.'') (Then word_char (Then word_char (optional word_char))))))))"

text \<open>\<open>/^[\+]?[1-9][\d]{0,15}$/\<close>\<close>

definition phone_pattern :: pattern where
  "phone_pattern =
     Then (optional (OneOf ''+'')) (Then (OneOf ''123456789'') (at_most 15 digit_char))"

section \<open>Users: schema\<close>

record user_doc =
  u_id :: string
  u_name :: string
  u_email :: string
  u_phoneNumber :: string
  u_role :: string
  u_password :: string
  u_isActive :: bool
  u_lastLogin :: "int option"
  u_createdAt :: int
  u_updatedAt :: int

type_synonym user_store = "user_doc collection"

text \<open>The object handed to \<open>User.create\<close>.\<close>

record user_data =
  ud_name :: string
  ud_email :: string
  ud_phoneNumber :: string
  ud_password :: string
  ud_role :: string

text \<open>
  Setters (\<open>trim\<close> on name and phone number, \<open>trim\<close> and \<open>lowercase\<close> on email) and
  defaults (\<open>isActive\<close> true, no \<open>lastLogin\<close>).
\<close>

definition User_new :: "int \<Rightarrow> string \<Rightarrow> user_data \<Rightarrow> user_doc" where
  "User_new now newId userData =
     \<lparr>u_id = newId,
      u_name = trim (ud_name userData),
      u_email = toLowerCase (trim (ud_email userData)),
      u_phoneNumber = trim (ud_phoneNumber userData),
      u_role = ud_role userData,
      u_password = ud_password userData,
      u_isActive = True,
      u_lastLogin = None,
      u_createdAt = now,
      u_updatedAt = now\<rparr>"

definition User_validate :: "user_doc \<Rightarrow> vmsg list" where
  "User_validate d =
     (if u_name d = '''' then [Msg ''Name is required'']
      else if js_length (u_name d) < 2 then [Msg ''Name must be at least 2 characters long'']
      else if js_length (u_name d) > 50 then [Msg ''Name cannot exceed 50 characters'']
      else [])
     @ (if u_email d = '''' then [Msg ''Email is required'']
        else if \<not> matches email_pattern (u_email d) then [Msg ''Please enter a valid email'']
        else [])
     @ (if u_phoneNumber d = '''' then [Msg ''Phone number is required'']
        else if \<not> matches phone_pattern (u_phoneNumber d)
          then [Msg ''Please enter a valid phone number'']
        else [])
     @ (if u_role d \<notin> set [''admin'', ''user''] then [Msg ''Role must be either admin or user'']
        else [])
     @ (if u_password d = '''' then [Msg ''Password is required'']
        else if js_length (u_password d) < 6
          then [Msg ''Password must be at least 6 characters long'']
        else [])"

text \<open>\<open>User.create\<close>: build, validate, insert under the unique indexes on email and phone number.\<close>

definition User_create ::
  "user_store \<Rightarrow> int \<Rightarrow> string \<Rightarrow> user_data \<Rightarrow> user_store \<times> (db_error + user_doc)" where
  "User_create s now newId userData =
     (let d = User_new now newId userData;
          s1 = s\<lparr>calls := calls s @ [Create (ud_email userData)]\<rparr>
      in if User_validate d \<noteq> [] then (s1, Inl (ValidationError (User_validate d)))
         else if \<exists>e \<in> set (docs s). u_email e = u_email d \<or> u_phoneNumber e = u_phoneNumber d
           then (s1, Inl DuplicateKey)
         else (s1\<lparr>docs := docs s @ [d]\<rparr>, Inr d))"

text \<open>
  The lookups \<open>User.findOne({$or: [{email}, {phoneNumber}]})\<close> and
  \<open>User.findOne({email})\<close> are the library's: they read the stored documents and
  give a document, none, or throw (a value the library cannot cast, a store that does
  not answer). The handlers are modelled for any such functions.
\<close>

type_synonym user_lookup = "user_doc list \<Rightarrow> jsval \<Rightarrow> jsval \<Rightarrow> db_error + user_doc option"

type_synonym email_lookup = "user_doc list \<Rightarrow> string \<Rightarrow> db_error + user_doc option"

text \<open>\<open>User.findByIdAndUpdate(user._id, {lastLogin: new Date()})\<close>\<close>

definition User_set_lastLogin :: "user_store \<Rightarrow> string \<Rightarrow> int \<Rightarrow> user_store" where
  "User_set_lastLogin s ident now =
     s\<lparr>docs := map (\<lambda>u. if u_id u = ident then u\<lparr>u_lastLogin := Some now, u_updatedAt := now\<rparr>
                           else u) (docs s),
       calls := calls s @ [FindByIdAndUpdate ident]\<rparr>"

section \<open>Users: handlers\<close>

text \<open>
  The claims of a token: \<open>jwt.sign({userId, email, role}, JWT_SECRET, {expiresIn: "7d"})\<close>.
  The signature is not modelled; issue and expiry times are in seconds.
\<close>

record token =
  tk_userId :: string
  tk_email :: string
  tk_role :: string
  tk_iat :: int
  tk_exp :: int

definition generateToken :: "int \<Rightarrow> user_doc \<Rightarrow> token" where
  "generateToken now user =
     \<lparr>tk_userId = u_id user, tk_email = u_email user, tk_role = u_role user,
      tk_iat = now div 1000, tk_exp = now div 1000 + 7 * 24 * 60 * 60\<rparr>"

text \<open>The \<open>user\<close> object of a response; the password is not part of it.\<close>

record user_view =
  v_id :: string
  v_name :: string
  v_email :: string
  v_phoneNumber :: string
  v_role :: string
  v_createdAt :: "int option"
  v_lastLogin :: "int option"

record auth_payload =
  pl_token :: token
  pl_user :: user_view

text \<open>
  Request bodies: each field is any JSON value, \<open>JUndefined\<close> when it is absent.
  \<open>rb_role\<close> is a \<open>role\<close> field a caller may add to the register body.
\<close>

record register_body =
  rb_name :: jsval
  rb_email :: jsval
  rb_phoneNumber :: jsval
  rb_password :: jsval
  rb_role :: jsval

record login_body =
  lb_email :: jsval
  lb_password :: jsval

text \<open>
  \<open>!value || (typeof value === 'string' && value.trim() === '')\<close>, and
  \<open>validateInput\<close> over \<open>Object.entries(fields)\<close>.
\<close>

definition blank :: "jsval \<Rightarrow> bool" where
  "blank value = (\<not> truthy value \<or> (case value of JStr v \<Rightarrow> trim v = [] | _ \<Rightarrow> False))"

definition validateInput :: "(string \<times> jsval) list \<Rightarrow> vmsg list" where
  "validateInput entries =
     map (\<lambda>(field, value). Msg (field @ '' is required''))
       (filter (\<lambda>(field, value). blank value) entries)"

text \<open>
  \<open>password.length < 6\<close> for a value that passed \<open>validateInput\<close>: the length of a
  string in UTF-16 code units, the number of elements of an array; any other value
  has no \<open>length\<close>, and \<open>undefined < 6\<close> is false.
\<close>

definition shorter_than_6 :: "jsval \<Rightarrow> bool" where
  "shorter_than_6 password =
     (case password of
        JStr p \<Rightarrow> js_length p < 6
      | JArray xs \<Rightarrow> length xs < 6
      | _ \<Rightarrow> False)"

text \<open>A value that has the method \<open>trim\<close>: a string. On any other value \<open>value.trim()\<close> throws.\<close>

definition as_string :: "jsval \<Rightarrow> string option" where
  "as_string value = (case value of JStr v \<Rightarrow> Some v | _ \<Rightarrow> None)"

text \<open>
  \<open>hash\<close> is \<open>bcrypt.hash(password, saltRounds)\<close> and \<open>compare\<close> is
  \<open>bcrypt.compare(password, hash)\<close>: each gives its result or throws. The handlers are
  modelled for any such functions. Whatever is thrown inside a handler is caught and
  answered 500. A failure of the store during \<open>User.create\<close> or during the update of
  \<open>lastLogin\<close> is not modelled.
\<close>

type_synonym hasher = "jsval \<Rightarrow> nat \<Rightarrow> db_error + string"

type_synonym comparer = "jsval \<Rightarrow> string \<Rightarrow> db_error + bool"

definition registerUser ::
  "user_lookup \<Rightarrow> hasher \<Rightarrow> user_store \<Rightarrow> int \<Rightarrow> string \<Rightarrow> register_body
     \<Rightarrow> user_store \<times> auth_payload response" where
  "registerUser findOne hash s now newId body =
     (let name = rb_name body; email = rb_email body;
          phoneNumber = rb_phoneNumber body; password = rb_password body;
          validationErrors =
            validateInput [(''name'', name), (''email'', email),
                           (''phoneNumber'', phoneNumber), (''password'', password)]
      in if length validationErrors > 0 then (s, validation_failure validationErrors)
         else
           (let s1 = s\<lparr>calls := calls s @ [FindOneWhere [email, phoneNumber]]\<rparr>
            in (case findOne (docs s) email phoneNumber of
                  Inl err \<Rightarrow> (s1, failure 500 ''Internal server error during registration'')
                | Inr (Some existingUser) \<Rightarrow>
                    (s1,
                     failure 409
                       (if JStr (u_email existingUser) = email
                        then ''User with this email already exists''
                        else ''User with this phone number already exists''))
                | Inr None \<Rightarrow>
                    if shorter_than_6 password then
                      (s1, failure 400 ''Password must be at least 6 characters long'')
                    else
                      (let saltRounds = 12
                       in (case hash password saltRounds of
                             Inl err \<Rightarrow>
                               (s1, failure 500 ''Internal server error during registration'')
                           | Inr hashedPassword \<Rightarrow>
                               (case as_string name of
                                  None \<Rightarrow>
                                    (s1, failure 500 ''Internal server error during registration'')
                                | Some n \<Rightarrow>
                               (case as_string email of
                                  None \<Rightarrow>
                                    (s1, failure 500 ''Internal server error during registration'')
                                | Some e \<Rightarrow>
                               (case as_string phoneNumber of
                                  None \<Rightarrow>
                                    (s1, failure 500 ''Internal server error during registration'')
                                | Some p \<Rightarrow>
                               (case User_create s1 now newId
                                       \<lparr>ud_name = trim n,
                                        ud_email = toLowerCase (trim e),
                                        ud_phoneNumber = trim p,
                                        ud_password = hashedPassword,
                                        ud_role = ''user''\<rparr> of
                                  (s2, Inl err) \<Rightarrow>
                                    (s2, failure 500 ''Internal server error during registration'')
                                | (s2, Inr newUser) \<Rightarrow>
                                    (s2,
                                     \<lparr>status = 201, success = True,
                                      message = Some ''User registered successfully'',
                                      errors = None,
                                      payload =
                                        Some \<lparr>pl_token = generateToken now newUser,
                                              pl_user =
                                                \<lparr>v_id = u_id newUser, v_name = u_name newUser,
                                                 v_email = u_email newUser,
                                                 v_phoneNumber = u_phoneNumber newUser,
                                                 v_role = u_role newUser,
                                                 v_createdAt = Some (u_createdAt newUser),
                                                 v_lastLogin = None\<rparr>\<rparr>\<rparr>))))))))))"

definition login ::
  "email_lookup \<Rightarrow> comparer \<Rightarrow> user_store \<Rightarrow> int \<Rightarrow> login_body
     \<Rightarrow> user_store \<times> auth_payload response" where
  "login findOne compare s now body =
     (let email = lb_email body; password = lb_password body;
          validationErrors = validateInput [(''email'', email), (''password'', password)]
      in if length validationErrors > 0 then (s, validation_failure validationErrors)
         else
           (case as_string email of
              None \<Rightarrow> (s, failure 500 ''Internal server error during login'')
            | Some e \<Rightarrow>
                (let s1 = s\<lparr>calls := calls s @ [FindOne (toLowerCase (trim e))]\<rparr>
                 in (case findOne (docs s) (toLowerCase (trim e)) of
                       Inl err \<Rightarrow> (s1, failure 500 ''Internal server error during login'')
                     | Inr None \<Rightarrow> (s1, failure 401 ''Invalid email or password'')
                     | Inr (Some user) \<Rightarrow>
                         if \<not> u_isActive user then
                           (s1, failure 401 ''Account is deactivated. Please contact support.'')
                         else
                           (case compare password (u_password user) of
                              Inl err \<Rightarrow>
                                (s1, failure 500 ''Internal server error during login'')
                            | Inr isMatch \<Rightarrow>
                                if \<not> isMatch then
                                  (s1, failure 401 ''Invalid email or password'')
                                else
                                  (User_set_lastLogin s1 (u_id user) now,
                                   \<lparr>status = 200, success = True,
                                    message = Some ''Login successful'',
                                    errors = None,
                                    payload =
                                      Some \<lparr>pl_token = generateToken now user,
                                            pl_user =
                                              \<lparr>v_id = u_id user, v_name = u_name user,
                                               v_email = u_email user,
                                               v_phoneNumber = u_phoneNumber user,
                                               v_role = u_role user,
                                               v_createdAt = None,
                                               v_lastLogin = Some now\<rparr>\<rparr>\<rparr>))))))"

text \<open>
  Example data: a registered user, and stand-ins for the library functions. The
  lookups search the stored documents for string values, which pass through the
  setters of their paths as assigned values do, and throw on any other value. The
  hash functions, like \<open>bcrypt\<close>, throw when the password is not a string.
\<close>

definition ada :: user_doc where
  "ada =
     \<lparr>u_id = ''64b7f1a2c3d4e5f601234567'', u_name = ''Ada'', u_email = ''ada@example.com'',
      u_phoneNumber = ''+2348012345678'', u_role = ''user'', u_password = ''hash:correct-horse'',
      u_isActive = True, u_lastLogin = None, u_createdAt = 0, u_updatedAt = 0\<rparr>"

definition example_findOne :: user_lookup where
  "example_findOne users email phoneNumber =
     (case as_string email of
        None \<Rightarrow> Inl OtherError
      | Some e \<Rightarrow>
          (case as_string phoneNumber of
             None \<Rightarrow> Inl OtherError
           | Some p \<Rightarrow>
               Inr (find_first
                      (\<lambda>u. u_email u = toLowerCase (trim e) \<or> u_phoneNumber u = trim p)
                      users)))"

definition example_findOne_email :: email_lookup where
  "example_findOne_email users email =
     Inr (find_first (\<lambda>u. u_email u = toLowerCase (trim email)) users)"

definition example_hash :: hasher where
  "example_hash password saltRounds =
     (case as_string password of None \<Rightarrow> Inl OtherError | Some p \<Rightarrow> Inr (''hash:'' @ p))"

definition example_compare :: comparer where
  "example_compare password hashed =
     (case as_string password of
        None \<Rightarrow> Inl OtherError
      | Some p \<Rightarrow> Inr (hashed = ''hash:'' @ p))"

section \<open>Strings: properties\<close>

lemma strip_leading_plain:
  assumes "\<forall>w \<in> set codes. w \<noteq> [] \<longrightarrow> \<not> plain (hd w)"
    and "s = [] \<or> plain (hd s)"
  shows "strip_leading codes s = s"
proof -
  have "False" if w: "w \<in> set codes" "w \<noteq> []" "take (length w) s = w" for w
  proof -
    have "s \<noteq> []" using w(2,3) by auto
    moreover have "hd w = hd s"
      using w(2,3) by (metis hd_take length_greater_0_conv)
    ultimately show False using assms w(1,2) by auto
  qed
  then have "leading_code codes s = None"
    by (auto simp: leading_code_def find_None_iff)
  then show ?thesis by (simp add: strip_leading.simps)
qed

lemma white_space_not_plain:
  "\<forall>w \<in> set white_space. w \<noteq> [] \<longrightarrow> \<not> plain (hd w)"
  "\<forall>w \<in> set (map rev white_space). w \<noteq> [] \<longrightarrow> \<not> plain (hd w)"
  by (simp_all add: white_space_def plain_def)

text \<open>
  A string that starts and ends with a printable character other than the space is
  its own trim.
\<close>

lemma trim_plain_ends:
  assumes "s \<noteq> []" and "plain (hd s)" and "plain (last s)"
  shows "trim s = s"
proof -
  have a: "strip_leading white_space s = s"
    using assms(2) by (intro strip_leading_plain white_space_not_plain) simp
  have "hd (rev s) = last s" using assms(1) by (simp add: hd_rev)
  then have b: "strip_leading (map rev white_space) (rev s) = rev s"
    using assms(3) by (intro strip_leading_plain white_space_not_plain) simp
  show ?thesis by (simp add: trim_def a b)
qed

lemma trim_white_space_examples:
  "trim [] = []"
  "trim [CHR 0x20, CHR 0x09, CHR 0x20] = []"
  "trim [CHR 0x20, CHR ''a'', CHR ''b'', CHR 0x0A] = [CHR ''a'', CHR ''b'']"
  "trim [CHR 0xC2, CHR 0xA0, CHR ''a'', CHR 0xE2, CHR 0x80, CHR 0xA8] = [CHR ''a'']"
  "trim [CHR 0xC2, CHR 0xA0, CHR 0xE3, CHR 0x80, CHR 0x80] = []"
  by (simp_all add: trim_def strip_leading.simps leading_code_def white_space_def)

lemma js_length_examples:
  "js_length [CHR ''a'', CHR ''b'', CHR ''c''] = 3"
  "js_length [CHR 0xC3, CHR 0xA9, CHR 0xE2, CHR 0x82, CHR 0xAC, CHR 0xF0, CHR 0x9F, CHR 0x98, CHR 0x80] = 4"
  by (simp_all add: js_length_def utf16_units_def)

section \<open>Rate limiter: properties\<close>

lemma ceil_ms_to_s: "\<lceil>of_int w / (1000 :: rat)\<rceil> = - ((- w) div 1000)"
proof -
  have "\<lceil>of_int w / (of_int 1000 :: rat)\<rceil> = - ((- w) div 1000)"
    by (rule ceiling_divide_eq_div)
  then show ?thesis by simp
qed

lemma recorded_after_allowed:
  assumes "rateLimit mx w rl c t = (rl', Next)"
  shows "recorded rl' c = filter (\<lambda>time. time > t - w) (recorded rl c) @ [t]"
    and "\<And>c'. c' \<noteq> c \<Longrightarrow> rl' c' = rl c'"
  using assms
  by (auto simp: rateLimit_def recorded_def Let_def split: option.splits if_splits)

lemma recorded_after_rejected:
  assumes "rateLimit mx w rl c t = (rl', TooMany st msg ra)"
  shows "recorded rl' c = filter (\<lambda>time. time > t - w) (recorded rl c)"
    and "\<And>c'. c' \<noteq> c \<Longrightarrow> rl' c' = rl c'"
    and "rl' c = map_option (filter (\<lambda>time. time > t - w)) (rl c)"
  using assms
  by (auto simp: rateLimit_def recorded_def Let_def split: option.splits if_splits)

lemma rateLimit_decision:
  "snd (rateLimit mx w rl c t) =
     (if mx \<le> int (length (filter (\<lambda>time. time > t - w) (recorded rl c)))
      then TooMany 429 ''Too many requests. Please try again later.'' \<lceil>of_int w / (1000 :: rat)\<rceil>
      else Next)"
  by (auto simp: rateLimit_def recorded_def Let_def split: option.splits)

lemma all_allowed_window:
  assumes "all_allowed mx w c ts rl = Some rl1"
    and "\<forall>t \<in> set ts. t - w \<le> L"
  shows "filter (\<lambda>time. time > L) (recorded rl1 c) =
         filter (\<lambda>time. time > L) (recorded rl c) @ filter (\<lambda>time. time > L) ts"
  using assms
proof (induction ts arbitrary: rl)
  case Nil
  then show ?case by simp
next
  case (Cons t ts)
  from Cons.prems(1) obtain rl' where
    step: "rateLimit mx w rl c t = (rl', Next)" and
    rest: "all_allowed mx w c ts rl' = Some rl1"
    by (auto split: prod.splits rate_outcome.splits)
  have bound: "t - w \<le> L" and bounds: "\<forall>u \<in> set ts. u - w \<le> L"
    using Cons.prems(2) by simp_all
  have "filter (\<lambda>time. time > L) (recorded rl1 c) =
        filter (\<lambda>time. time > L) (recorded rl' c) @ filter (\<lambda>time. time > L) ts"
    by (rule Cons.IH [OF rest bounds])
  moreover have "filter (\<lambda>time. time > L) (filter (\<lambda>time. time > t - w) (recorded rl c)) =
        filter (\<lambda>time. time > L) (recorded rl c)"
    using bound by (auto intro!: filter_cong)
  ultimately show ?case
    by (simp add: recorded_after_allowed(1) [OF step])
qed

text \<open>
  C7. Let a client make \<open>maxRequests\<close> requests that are all let through, and let
  \<open>now\<close> be a time whose window still holds every one of them. Then the next request
  of that client, at \<open>now\<close>, is answered 429 with \<open>retryAfter\<close> the window length
  in seconds (rounded up); the client's list afterwards is the old list without the
  expired entries, so \<open>now\<close> was not appended, and no other client's entry changes.
  When \<open>maxRequests\<close> is positive, a later request made once every recorded time is
  at least a window old is let through again.
\<close>

theorem rate_limit_window:
  assumes "all_allowed maxRequests windowMs c ts rl = Some rl1"
    and "int (length ts) = maxRequests"
    and "\<forall>t \<in> set ts. now - windowMs < t \<and> t \<le> now"
  shows "\<exists>rl2.
           rateLimit maxRequests windowMs rl1 c now =
             (rl2, TooMany 429 ''Too many requests. Please try again later.''
                     \<lceil>of_int windowMs / (1000 :: rat)\<rceil>)
         \<and> rl2 c = map_option (filter (\<lambda>time. time > now - windowMs)) (rl1 c)
         \<and> (\<forall>c'. c' \<noteq> c \<longrightarrow> rl2 c' = rl1 c')
         \<and> (\<forall>later. 0 < maxRequests \<and> (\<forall>t \<in> set (recorded rl2 c). t \<le> later - windowMs)
               \<longrightarrow> snd (rateLimit maxRequests windowMs rl2 c later) = Next)"
proof -
  let ?inside = "\<lambda>time. time > now - windowMs"
  have "\<forall>t \<in> set ts. t - windowMs \<le> now - windowMs"
    using assms(3) by simp
  from all_allowed_window [OF assms(1) this]
  have "filter ?inside (recorded rl1 c) = filter ?inside (recorded rl c) @ filter ?inside ts" .
  moreover have "filter ?inside ts = ts"
    using assms(3) by (simp add: filter_id_conv)
  ultimately have "length ts \<le> length (filter ?inside (recorded rl1 c))"
    by simp
  then have full: "maxRequests \<le> int (length (filter ?inside (recorded rl1 c)))"
    using assms(2) by simp
  obtain rl2 out where run: "rateLimit maxRequests windowMs rl1 c now = (rl2, out)"
    by (cases "rateLimit maxRequests windowMs rl1 c now")
  have out: "out = TooMany 429 ''Too many requests. Please try again later.''
                     \<lceil>of_int windowMs / (1000 :: rat)\<rceil>"
    using rateLimit_decision [of maxRequests windowMs rl1 c now] full run by simp
  note rej = recorded_after_rejected [OF run [unfolded out]]
  have again: "snd (rateLimit maxRequests windowMs rl2 c later) = Next"
    if pos: "0 < maxRequests" and old: "\<forall>t \<in> set (recorded rl2 c). t \<le> later - windowMs"
    for later
  proof -
    have "filter (\<lambda>time. time > later - windowMs) (recorded rl2 c) = []"
      using old by (auto simp: filter_empty_conv)
    then show ?thesis
      using pos by (simp add: rateLimit_decision)
  qed
  show ?thesis
    using run out rej(2,3) again by auto
qed

theorem rate_limit_window_witness:
  "all_allowed 2 1000 ''10.0.0.7'' [0, 10] Map.empty = Some [''10.0.0.7'' \<mapsto> [0, 10]]
   \<and> (\<exists>rl2. rateLimit 2 1000 [''10.0.0.7'' \<mapsto> [0, 10]] ''10.0.0.7'' 20 =
               (rl2, TooMany 429 ''Too many requests. Please try again later.'' 1)
        \<and> rl2 ''10.0.0.7'' = Some [0, 10]
        \<and> snd (rateLimit 2 1000 rl2 ''10.0.0.7'' 1010) = Next)"
proof -
  have run: "all_allowed 2 1000 ''10.0.0.7'' [0, 10] Map.empty = Some [''10.0.0.7'' \<mapsto> [0, 10]]"
    by (simp add: rateLimit_def Let_def)
  have len: "int (length [0 :: int, 10]) = 2" by simp
  have win: "\<forall>t \<in> set [0 :: int, 10]. 20 - 1000 < t \<and> t \<le> 20" by simp
  from rate_limit_window [OF run len win]
  obtain rl2 where
    r1: "rateLimit 2 1000 [''10.0.0.7'' \<mapsto> [0, 10]] ''10.0.0.7'' 20 =
           (rl2, TooMany 429 ''Too many requests. Please try again later.''
                   \<lceil>of_int 1000 / (1000 :: rat)\<rceil>)" and
    r2: "rl2 ''10.0.0.7'' =
           map_option (filter (\<lambda>time. time > 20 - 1000)) ([''10.0.0.7'' \<mapsto> [0, 10]] ''10.0.0.7'')" and
    r3: "\<forall>later. 0 < (2 :: int) \<and> (\<forall>t \<in> set (recorded rl2 ''10.0.0.7''). t \<le> later - 1000)
           \<longrightarrow> snd (rateLimit 2 1000 rl2 ''10.0.0.7'' later) = Next"
    by blast
  have stored: "rl2 ''10.0.0.7'' = Some [0, 10]"
    using r2 by simp
  then have "\<forall>t \<in> set (recorded rl2 ''10.0.0.7''). t \<le> 1010 - 1000"
    by (simp add: recorded_def)
  with r3 have "snd (rateLimit 2 1000 rl2 ''10.0.0.7'' 1010) = Next"
    by simp
  with run r1 stored show ?thesis by simp
qed

section \<open>Resilience helpers: properties\<close>

text \<open>A value that has a 4xx status is neither \<open>undefined\<close> nor \<open>null\<close>.\<close>

lemma client_error_readable:
  "is_client_error (status_of e) \<Longrightarrow> e \<noteq> Undefined \<and> e \<noteq> Null"
  by (cases e) (simp_all add: is_client_error_def)

lemma retry_from_client_error:
  assumes "i \<le> k" and "k < mr"
    and "\<forall>j. i \<le> j \<and> j < k \<longrightarrow>
           (\<exists>dj ej. fn j = Throws dj ej \<and> ej \<noteq> Undefined \<and> ej \<noteq> Null
                \<and> \<not> is_client_error (status_of ej))"
    and "fn k = Throws d e" and "is_client_error (status_of e)"
  shows "invocations (retry_from fn mr delay i le clock sl) = Suc k
       \<and> map_option snd (outcome (retry_from fn mr delay i le clock sl)) = Some (Rejected e)"
  using assms(1,3)
proof (induction "k - i" arbitrary: i le clock sl)
  case 0
  then have "i = k" by simp
  then show ?case
    using assms(2,4,5) client_error_readable [OF assms(5)]
    by (subst (1 2) retry_from.simps) simp
next
  case (Suc n)
  then have lt: "i < k" and n: "n = k - Suc i" by simp_all
  from Suc.prems(2) lt obtain dj ej where
    here: "fn i = Throws dj ej" "ej \<noteq> Undefined" "ej \<noteq> Null" "\<not> is_client_error (status_of ej)"
    by blast
  have rest: "\<forall>j. Suc i \<le> j \<and> j < k \<longrightarrow>
           (\<exists>dj ej. fn j = Throws dj ej \<and> ej \<noteq> Undefined \<and> ej \<noteq> Null
                \<and> \<not> is_client_error (status_of ej))"
    using Suc.prems(2) by simp
  have le': "Suc i \<le> k" using lt by simp
  note IH = Suc.hyps(1) [OF n le' rest]
  show ?case
    using here lt assms(2) IH
    by (subst (1 2) retry_from.simps) simp
qed

lemma retry_from_exhausted:
  assumes "i < mr"
    and "\<forall>j. i \<le> j \<and> j < mr \<longrightarrow>
           (\<exists>dj ej. fn j = Throws dj ej \<and> ej \<noteq> Undefined \<and> ej \<noteq> Null
                \<and> \<not> is_client_error (status_of ej))"
  shows "invocations (retry_from fn mr delay i le clock sl) = mr
       \<and> sleeps (retry_from fn mr delay i le clock sl) = sl @ map (\<lambda>a. delay * 2 ^ a) [i ..< mr - 1]
       \<and> (\<exists>d e. fn (mr - 1) = Throws d e
            \<and> map_option snd (outcome (retry_from fn mr delay i le clock sl)) = Some (Rejected e))"
  using assms
proof (induction "mr - i" arbitrary: i le clock sl)
  case 0
  then show ?case by simp
next
  case (Suc n)
  from Suc.prems obtain dj ej where
    here: "fn i = Throws dj ej" "ej \<noteq> Undefined" "ej \<noteq> Null" "\<not> is_client_error (status_of ej)"
    by blast
  show ?case
  proof (cases "Suc i < mr")
    case True
    have n: "n = mr - Suc i" using Suc.hyps(2) by simp
    have rest: "\<forall>j. Suc i \<le> j \<and> j < mr \<longrightarrow>
           (\<exists>dj ej. fn j = Throws dj ej \<and> ej \<noteq> Undefined \<and> ej \<noteq> Null
                \<and> \<not> is_client_error (status_of ej))"
      using Suc.prems(2) by simp
    note IH = Suc.hyps(1) [OF n True rest]
    have upt: "[i ..< mr - 1] = i # [Suc i ..< mr - 1]"
      using True by (simp add: upt_conv_Cons)
    have cond: "i < mr - 1" using True by simp
    show ?thesis
      using here Suc.prems(1) cond IH upt
      by (subst (1 2 3) retry_from.simps) simp
  next
    case False
    then have last: "mr - 1 = i" "\<not> i < mr - 1" using Suc.prems(1) by simp_all
    have stop: "retry_from fn mr delay (Suc i) ej (clock + dj) sl =
            \<lparr>outcome = Some (clock + dj, Rejected ej), invocations = Suc i, sleeps = sl\<rparr>"
      using False by (subst retry_from.simps) simp
    have "retry_from fn mr delay i le clock sl =
            \<lparr>outcome = Some (clock + dj, Rejected ej), invocations = Suc i, sleeps = sl\<rparr>"
      using here Suc.prems(1) last stop by (subst retry_from.simps) simp
    then show ?thesis
      using here last False Suc.prems(1) by simp
  qed
qed

text \<open>
  A call that rejects with \<open>undefined\<close> or \<open>null\<close> is the last one: reading its
  \<open>status\<close> throws a \<open>TypeError\<close> out of the loop.
\<close>

lemma retry_from_undefined:
  assumes "i < mr" and "fn i = Throws d e" and "e = Undefined \<or> e = Null"
  shows "retry_from fn mr delay i le clock sl =
           \<lparr>outcome = Some (clock + d, Rejected TypeError), invocations = Suc i, sleeps = sl\<rparr>"
  using assms by (subst retry_from.simps) auto

lemma db_retry_bounds:
  "invocations (withRetry fn 2 500) \<le> 2 \<and> set (sleeps (withRetry fn 2 500)) \<subseteq> {500}"
proof -
  have two: "retry_from fn 2 500 2 e c sl = \<lparr>outcome = Some (c, Rejected e), invocations = 2, sleeps = sl\<rparr>"
    for e c sl
    by (subst retry_from.simps) simp
  have one: "invocations (retry_from fn 2 500 (Suc 0) e c sl) \<le> 2
           \<and> sleeps (retry_from fn 2 500 (Suc 0) e c sl) = sl" for e c sl
    by (subst (1 2) retry_from.simps) (simp add: two numeral_2_eq_2 [symmetric] split: invocation.splits)
  show ?thesis
    unfolding withRetry_def
    by (subst (1 2) retry_from.simps) (simp add: one split: invocation.splits)
qed

lemma withTimeout_cases:
  "t < 20000 \<Longrightarrow> withTimeout (Some (t, r)) 20000 msg = [(t, r)]"
  "20000 < t \<Longrightarrow> withTimeout (Some (t, r)) 20000 msg = [(20000, Rejected (Error msg None))]"
  "withTimeout None 20000 msg = [(20000, Rejected (Error msg None))]"
  by (simp_all add: withTimeout_def timer_ms_def)

text \<open>
  C6 as stated fails. An operation whose every call fails with status 503 is called
  twice by \<open>dbOperationWithTimeout\<close>, with one wait of 500 ms, and then its failure
  is raised: one retry, never a second. An operation whose call rejects with
  \<open>undefined\<close>, a failure without a 4xx status, is called once by \<open>withRetry\<close> with
  count 3, and a \<open>TypeError\<close> is raised.
\<close>

theorem resilience_wrapper_counterexample:
  "invocations (withRetry always_unavailable 2 500) = 2
   \<and> sleeps (withRetry always_unavailable 2 500) = [500]
   \<and> dbOperationWithTimeout always_unavailable None =
       [(510, Rejected (Error ''Service unavailable'' (Some 503)))]
   \<and> invocations (withRetry rejects_undefined 3 1000) = 1
   \<and> sleeps (withRetry rejects_undefined 3 1000) = []
   \<and> outcome (withRetry rejects_undefined 3 1000) = Some (5, Rejected TypeError)"
  by (simp add: dbOperationWithTimeout_def withTimeout_def withRetry_def retry_from.simps
      always_unavailable_def rejects_undefined_def is_client_error_def timer_ms_def)

text \<open>
  C6, amended. (1) When the calls before call \<open>k\<close> fail with a value other than
  \<open>undefined\<close> and \<open>null\<close> that has no 4xx status, and call \<open>k\<close> fails with a 4xx
  status, \<open>withRetry\<close> makes exactly \<open>k + 1\<close> calls and rejects with that error: a
  4xx failure is never followed by another call, and a first call that fails 4xx is
  the only call. (2) When every call fails with a value other than \<open>undefined\<close> and
  \<open>null\<close> that has no 4xx status, \<open>withRetry\<close> makes \<open>maxRetries\<close> calls, asks for
  a wait of \<open>delay * 2 ^ attempt\<close> after attempt 0, 1, ... (not after the last one)
  and rejects with the last failure. (3) \<open>dbOperationWithTimeout\<close> is \<open>withRetry\<close>
  with count 2 and base delay 500 under a 20000 ms timeout: at most 2 calls, that is
  at most one retry, the only wait is 500 ms, the result is the retry's when that
  settles before 20000 ms, and the rejection "Database operation timeout" at
  20000 ms when it settles later or never.
\<close>

theorem resilience_wrapper:
  "(\<forall>k d e.
       k < maxRetries
       \<and> (\<forall>j < k. \<exists>dj ej. fn j = Throws dj ej \<and> ej \<noteq> Undefined \<and> ej \<noteq> Null
                \<and> \<not> is_client_error (status_of ej))
       \<and> fn k = Throws d e \<and> is_client_error (status_of e)
       \<longrightarrow> invocations (withRetry fn maxRetries delay) = Suc k
         \<and> map_option snd (outcome (withRetry fn maxRetries delay)) = Some (Rejected e))
   \<and> (0 < maxRetries
       \<and> (\<forall>j < maxRetries. \<exists>dj ej. fn j = Throws dj ej \<and> ej \<noteq> Undefined \<and> ej \<noteq> Null
                \<and> \<not> is_client_error (status_of ej))
       \<longrightarrow> invocations (withRetry fn maxRetries delay) = maxRetries
         \<and> sleeps (withRetry fn maxRetries delay) = map (\<lambda>attempt. delay * 2 ^ attempt) [0 ..< maxRetries - 1]
         \<and> (\<exists>d e. fn (maxRetries - 1) = Throws d e
              \<and> map_option snd (outcome (withRetry fn maxRetries delay)) = Some (Rejected e)))
   \<and> dbOperationWithTimeout fn None =
       withTimeout (outcome (withRetry fn 2 500)) 20000 ''Database operation timeout''
   \<and> invocations (withRetry fn 2 500) \<le> 2
   \<and> set (sleeps (withRetry fn 2 500)) \<subseteq> {500}
   \<and> (\<forall>t r. outcome (withRetry fn 2 500) = Some (t, r) \<and> t < 20000
         \<longrightarrow> dbOperationWithTimeout fn None = [(t, r)])
   \<and> (outcome (withRetry fn 2 500) = None
       \<or> (\<exists>t r. outcome (withRetry fn 2 500) = Some (t, r) \<and> 20000 < t)
       \<longrightarrow> dbOperationWithTimeout fn None =
             [(20000, Rejected (Error ''Database operation timeout'' None))])"
proof -
  have client: "invocations (withRetry fn maxRetries delay) = Suc k
         \<and> map_option snd (outcome (withRetry fn maxRetries delay)) = Some (Rejected e)"
    if "k < maxRetries"
      and "\<forall>j < k. \<exists>dj ej. fn j = Throws dj ej \<and> ej \<noteq> Undefined \<and> ej \<noteq> Null
                \<and> \<not> is_client_error (status_of ej)"
      and "fn k = Throws d e" and "is_client_error (status_of e)"
    for k d e
    unfolding withRetry_def
    using that by (intro retry_from_client_error) simp_all
  have exhausted: "invocations (withRetry fn maxRetries delay) = maxRetries
         \<and> sleeps (withRetry fn maxRetries delay) = map (\<lambda>attempt. delay * 2 ^ attempt) [0 ..< maxRetries - 1]
         \<and> (\<exists>d e. fn (maxRetries - 1) = Throws d e
              \<and> map_option snd (outcome (withRetry fn maxRetries delay)) = Some (Rejected e))"
    if "0 < maxRetries"
      and "\<forall>j < maxRetries. \<exists>dj ej. fn j = Throws dj ej \<and> ej \<noteq> Undefined \<and> ej \<noteq> Null
                \<and> \<not> is_client_error (status_of ej)"
    using retry_from_exhausted [of 0 maxRetries fn delay Undefined 0 "[]"] that
    unfolding withRetry_def by simp
  have db: "dbOperationWithTimeout fn None =
       withTimeout (outcome (withRetry fn 2 500)) 20000 ''Database operation timeout''"
    by (simp add: dbOperationWithTimeout_def)
  show ?thesis
    using client exhausted db db_retry_bounds [of fn]
    by (auto simp: withTimeout_cases)
qed

theorem resilience_wrapper_witness:
  "invocations (withRetry always_bad_request 3 1000) = 1
   \<and> invocations (withRetry always_unavailable 3 1000) = 3
   \<and> sleeps (withRetry always_unavailable 3 1000) = [1000, 2000]
   \<and> dbOperationWithTimeout resolves_42 None = [(7, Resolved 42)]
   \<and> dbOperationWithTimeout never_settles None =
       [(20000, Rejected (Error ''Database operation timeout'' None))]"
proof -
  have a: "invocations (withRetry always_bad_request 3 1000) = 1"
    using resilience_wrapper [where fn = always_bad_request and maxRetries = 3 and delay = 1000]
    by (simp add: is_client_error_def always_bad_request_def)
  have b: "invocations (withRetry always_unavailable 3 1000) = 3
         \<and> sleeps (withRetry always_unavailable 3 1000) = [1000, 2000]"
    using resilience_wrapper [where fn = always_unavailable and maxRetries = 3 and delay = 1000]
    by (simp add: is_client_error_def always_unavailable_def upt_rec)
  have "outcome (withRetry resolves_42 2 500) = Some (7, Resolved 42)"
    by (simp add: withRetry_def retry_from.simps resolves_42_def)
  then have c: "dbOperationWithTimeout resolves_42 None = [(7, Resolved 42)]"
    using resilience_wrapper [where fn = resolves_42 and maxRetries = 2 and delay = 500]
    by (simp add: withTimeout_def timer_ms_def)
  have "outcome (withRetry never_settles 2 500) = None"
    by (simp add: withRetry_def retry_from.simps never_settles_def)
  then have d: "dbOperationWithTimeout never_settles None =
       [(20000, Rejected (Error ''Database operation timeout'' None))]"
    using resilience_wrapper [where fn = never_settles and maxRetries = 2 and delay = 500]
    by (simp add: withTimeout_def timer_ms_def)
  show ?thesis using a b c d by simp
qed

section \<open>Menu list endpoint: properties\<close>

lemma parseInt_examples:
  "parseInt ''abc'' = NaN"
  "parseInt '''' = NaN"
  "parseInt ''0'' = Num 0"
  "parseInt ''-5'' = Num (- 5)"
  "parseInt ''100'' = Num 100"
  "parseInt '' 12px'' = Num 12"
  "parseInt ''0x1F'' = Num 31"
  "parseInt ''1'' = Num 1"
  "parseInt ''10'' = Num 10"
  by (simp_all add: parseInt_def Let_def strip_leading.simps leading_code_def white_space_def
      is_digit_def digit_of_def digits_value_def upt_rec)

text \<open>
  When \<open>parseInt\<close> reads a number from both parameters (or they are absent), the page
  is at least 1, the limit lies in 1 to 50, and the offset is their product.
\<close>

lemma pagination_numeric:
  assumes "parseInt (case qp_page p of None \<Rightarrow> ''1'' | Some s \<Rightarrow> s) = Num pg"
    and "parseInt (case qp_limit p of None \<Rightarrow> ''10'' | Some s \<Rightarrow> s) = Num lm"
  shows "pageNum (getAllMenu_plan p) = Num (max 1 pg)
       \<and> limitNum (getAllMenu_plan p) = Num (min 50 (max 1 lm))
       \<and> skip (getAllMenu_plan p) = Num ((max 1 pg - 1) * min 50 (max 1 lm))"
  using assms by (simp add: getAllMenu_plan_def Let_def)

text \<open>
  C2. The request \<open>GET /api/v1/menu?limit=abc\<close>: \<open>parseInt\<close> gives \<open>NaN\<close>, which
  \<open>Math.max\<close> and \<open>Math.min\<close> pass on, so the limit and the offset handed to the query
  are \<open>NaN\<close> and the limit is not a number between 1 and 50.
\<close>

theorem pagination_non_numeric_limit:
  "limitNum (getAllMenu_plan (no_params\<lparr>qp_limit := Some ''abc''\<rparr>)) = NaN
   \<and> skip (getAllMenu_plan (no_params\<lparr>qp_limit := Some ''abc''\<rparr>)) = NaN
   \<and> pageNum (getAllMenu_plan (no_params\<lparr>qp_limit := Some ''abc''\<rparr>)) = Num 1"
  by (simp add: getAllMenu_plan_def Let_def no_params_def parseInt_examples)

text \<open>
  C3 as stated fails: with \<open>sortBy=rating&sortOrder=asc\<close> the sort is by
  \<open>createdAt\<close> ascending, not descending.
\<close>

theorem sort_fallback_counterexample:
  "''rating'' \<notin> set validSortFields
   \<and> \<not> searching (qp_q (no_params\<lparr>qp_sortBy := Some ''rating'', qp_sortOrder := Some ''asc''\<rparr>))
   \<and> sort_spec (getAllMenu_plan (no_params\<lparr>qp_sortBy := Some ''rating'', qp_sortOrder := Some ''asc''\<rparr>))
       = [(''createdAt'', Direction 1)]
   \<and> sort_spec (getAllMenu_plan (no_params\<lparr>qp_sortBy := Some ''rating'', qp_sortOrder := Some ''asc''\<rparr>))
       \<noteq> [(''createdAt'', Direction (- 1))]"
  by (simp add: getAllMenu_plan_def Let_def no_params_def validSortFields_def searching_def)

text \<open>
  C3, amended. Without a free-text search, a \<open>sortBy\<close> outside the allow-list sorts by
  \<open>createdAt\<close> in the direction \<open>sortOrder\<close> asks for: ascending when \<open>sortOrder\<close> is
  \<open>asc\<close>, descending for every other value and when it is absent.
\<close>

theorem sort_fallback:
  assumes "\<not> searching (qp_q p)"
    and "qp_sortBy p = Some s"
    and "s \<notin> set validSortFields"
  shows "sort_spec (getAllMenu_plan p) =
           [(''createdAt'', Direction (if qp_sortOrder p = Some ''asc'' then 1 else - 1))]"
  using assms by (auto simp: getAllMenu_plan_def Let_def split: option.splits)

theorem sort_fallback_witness:
  "\<not> searching (qp_q (no_params\<lparr>qp_sortBy := Some ''rating''\<rparr>))
   \<and> qp_sortBy (no_params\<lparr>qp_sortBy := Some ''rating''\<rparr>) = Some ''rating''
   \<and> ''rating'' \<notin> set validSortFields
   \<and> sort_spec (getAllMenu_plan (no_params\<lparr>qp_sortBy := Some ''rating''\<rparr>)) =
        [(''createdAt'', Direction (- 1))]"
proof -
  let ?p = "no_params\<lparr>qp_sortBy := Some ''rating''\<rparr>"
  have a: "\<not> searching (qp_q ?p)" by (simp add: no_params_def searching_def)
  have b: "qp_sortBy ?p = Some ''rating''" by simp
  have c: "''rating'' \<notin> set validSortFields" by (simp add: validSortFields_def)
  have "qp_sortOrder ?p = None" by (simp add: no_params_def)
  with sort_fallback [OF a b c] a b c show ?thesis by simp
qed

section \<open>Menu catalog: properties\<close>

lemma lower_char_simps:
  "lower_char CHR ''S'' = CHR ''s''" "lower_char CHR ''O'' = CHR ''o''"
  "lower_char CHR ''U'' = CHR ''u''" "lower_char CHR ''P'' = CHR ''p''"
  "lower_char CHR ''B'' = CHR ''b''" "lower_char CHR ''A'' = CHR ''a''"
  "lower_char CHR ''D'' = CHR ''d''" "lower_char CHR ''L'' = CHR ''l''"
  by (simp_all add: lower_char_def)

text \<open>
  Every category the handlers accept starts with a capital letter, which the
  \<open>lowercase\<close> setter replaces; no entry of the schema's enum starts with a small one.
\<close>

lemma lowercased_category_not_in_enum:
  assumes "category \<in> set validCategories"
  shows "toLowerCase (trim category) \<notin> set category_enum"
proof -
  have t: "trim category = category"
    using assms by (intro trim_plain_ends) (auto simp: validCategories_def plain_def)
  have "hd (toLowerCase category) \<in> set ''spbadl''"
    using assms by (auto simp: validCategories_def toLowerCase_def lower_char_simps)
  moreover have "\<forall>e \<in> set category_enum. hd e \<notin> set ''spbadl''"
    by (simp add: category_enum_def)
  ultimately show ?thesis
    using t by auto
qed

lemma Menu_create_valid_category_fails:
  assumes "md_category menuData \<in> set validCategories"
  shows "\<exists>errs. Menu_create s now newId menuData =
           (s\<lparr>calls := calls s @ [Create (md_name menuData)]\<rparr>, Inl (ValidationError errs))
         \<and> Msg category_enum_message \<in> set errs"
proof -
  let ?d = "Menu_new now newId menuData"
  have cat: "m_category ?d = toLowerCase (trim (md_category menuData))"
    by (simp add: Menu_new_def)
  have notin: "m_category ?d \<notin> set category_enum"
    using lowercased_category_not_in_enum [OF assms] cat
    by simp
  have ne: "m_category ?d \<noteq> ''''"
    using assms cat by (auto simp: validCategories_def trim_plain_ends plain_def toLowerCase_def)
  have "Msg category_enum_message \<in> set (Menu_validate ?d)"
    using notin ne by (simp add: Menu_validate_def)
  then show ?thesis
    by (auto simp: Menu_create_def Let_def)
qed

text \<open>
  No create request stores a document or is answered 201: a category that passes the
  handler's allow-list fails the schema's enum once the setter has lower-cased it.
\<close>

lemma addItemMenu_never_creates:
  "docs (fst (addItemMenu s now newId body)) = docs s
   \<and> status (snd (addItemMenu s now newId body)) \<in> {400, 409}"
proof -
  consider (early) "\<not> present (b_name body) \<or> \<not> truthy (b_price body) \<or> \<not> present (b_category body)"
    | (notnum) "present (b_name body)" "truthy (b_price body)" "present (b_category body)"
        "\<forall>p. b_price body \<noteq> JNum p"
    | (num) p where "present (b_name body)" "present (b_category body)" "b_price body = JNum p" "p \<noteq> 0"
    by (cases "b_price body") (auto simp: truthy_def)
  then show ?thesis
  proof cases
    case early
    then show ?thesis by (auto simp: addItemMenu_def failure_def)
  next
    case notnum
    then show ?thesis
      by (cases "b_price body") (auto simp: addItemMenu_def failure_def)
  next
    case num
    show ?thesis
    proof (cases "p < 0 \<or> the (b_category body) \<notin> set validCategories")
      case True
      then show ?thesis
        using num by (auto simp: addItemMenu_def failure_def truthy_def Let_def)
    next
      case False
      then have ok: "\<not> p < 0" "the (b_category body) \<in> set validCategories" by simp_all
      obtain s1 found where f: "Menu_findOne_name s (trim (the (b_name body))) = (s1, found)"
        by (cases "Menu_findOne_name s (trim (the (b_name body)))")
      then have s1: "docs s1 = docs s" by (auto simp: Menu_findOne_name_def)
      show ?thesis
      proof (cases found)
        case (Some d)
        then show ?thesis
          using num ok f s1 by (simp add: addItemMenu_def failure_def truthy_def Let_def)
      next
        case None
        let ?md = "\<lparr>md_name = trim (the (b_name body)),
                                  md_price = p,
                                  md_description = map_option trim (b_description body),
                                  md_featuredImage = map_option trim (b_featuredImage body),
                                  md_images = (case b_images body of None \<Rightarrow> [] | Some is \<Rightarrow> is),
                                  md_isAvailable =
                                    (case b_isAvailable body of None \<Rightarrow> True | Some a \<Rightarrow> a),
                                  md_ingredients = map_option trim (b_ingredients body),
                                  md_category = the (b_category body),
                                  md_preparationTime = b_preparationTime body,
                                  md_nutritionalInfo = b_nutritionalInfo body,
                                  md_allergens = b_allergens body,
                                  md_spicyLevel = b_spicyLevel body\<rparr>"
        have "md_category ?md \<in> set validCategories" using ok by simp
        from Menu_create_valid_category_fails [OF this, of s1 now newId]
        obtain errs where
          "Menu_create s1 now newId ?md =
             (s1\<lparr>calls := calls s1 @ [Create (md_name ?md)]\<rparr>, Inl (ValidationError errs))"
          by blast
        then show ?thesis
          using num ok f s1 None
          by (simp add: addItemMenu_def validation_failure_def truthy_def Let_def)
      qed
    qed
  qed
qed

text \<open>
  C1. The first step of the scenario, on an empty catalog: the create request for
  Jollof Rice in category SPECIAL is answered 400 "Validation failed" with the
  category enum's message, and the catalog stays empty.
\<close>

theorem create_special_rejected:
  "addItemMenu \<lparr>docs = [], calls = []\<rparr> now newId
     (empty_body\<lparr>b_name := Some ''Jollof Rice'', b_price := JNum 2500,
                  b_category := Some ''SPECIAL''\<rparr>)
   = (\<lparr>docs = [], calls = [FindOne ''Jollof Rice'', Create ''Jollof Rice'']\<rparr>,
      \<lparr>status = 400, success = False, message = Some ''Validation failed'',
       errors = Some [Msg category_enum_message], payload = None\<rparr>)"
proof -
  have t: "trim ''Jollof Rice'' = ''Jollof Rice''" "trim ''SPECIAL'' = ''SPECIAL''"
    by (simp_all add: trim_plain_ends plain_def)
  have l: "toLowerCase ''SPECIAL'' = ''special''"
    by (simp add: toLowerCase_def lower_char_def)
  show ?thesis
    by (simp add: addItemMenu_def empty_body_def present_def truthy_def validCategories_def
        Menu_findOne_name_def find_first_def Menu_create_def Menu_new_def Menu_validate_def
        validation_failure_def category_enum_def allergen_enum_def t l Let_def
        js_length_def utf16_units_def)
qed

theorem create_special_rejected_witness:
  "addItemMenu \<lparr>docs = [], calls = []\<rparr> 1700000000000 ''64b7f1a2c3d4e5f6012345aa''
     (empty_body\<lparr>b_name := Some ''Jollof Rice'', b_price := JNum 2500,
                  b_category := Some ''SPECIAL''\<rparr>)
   = (\<lparr>docs = [], calls = [FindOne ''Jollof Rice'', Create ''Jollof Rice'']\<rparr>,
      \<lparr>status = 400, success = False, message = Some ''Validation failed'',
       errors = Some [Msg category_enum_message], payload = None\<rparr>)"
  by (rule create_special_rejected)

text \<open>
  C4. A create request whose price is the number 0 is answered 400 "Please provide
  name, price, and category", whatever its other fields and whatever the catalog
  holds, and the catalog is left as it was.
\<close>

theorem create_price_zero_rejected:
  "addItemMenu s now newId (body\<lparr>b_price := JNum 0\<rparr>) =
     (s, \<lparr>status = 400, success = False,
          message = Some ''Please provide name, price, and category'',
          errors = None, payload = None\<rparr>)"
  by (simp add: addItemMenu_def truthy_def failure_def)

theorem create_price_zero_rejected_witness:
  "addItemMenu \<lparr>docs = [], calls = []\<rparr> 1700000000000 ''64b7f1a2c3d4e5f6012345aa''
     (empty_body\<lparr>b_name := Some ''Water'', b_category := Some ''BEVERAGE'',
                  b_price := JNum 0\<rparr>)
   = (\<lparr>docs = [], calls = []\<rparr>,
      \<lparr>status = 400, success = False,
       message = Some ''Please provide name, price, and category'',
       errors = None, payload = None\<rparr>)"
  by (rule create_price_zero_rejected)

text \<open>
  C9. For an id that is not 24 hexadecimal digits, each of the three handlers answers
  400 "Invalid menu item ID" and returns the store as it was: no document changes and
  no model call is logged. For the update handler this holds whatever the library's
  update function does.
\<close>

theorem malformed_id_rejected:
  assumes "\<not> isObjectId ident"
  shows "getSingleMenuItem s ident =
           (s, \<lparr>status = 400, success = False, message = Some ''Invalid menu item ID'',
                errors = None, payload = None\<rparr>)
       \<and> editSingleMenuItem findByIdAndUpdate s ident body =
           (s, \<lparr>status = 400, success = False, message = Some ''Invalid menu item ID'',
                errors = None, payload = None\<rparr>)
       \<and> deleteSingleMenuItem s ident =
           (s, \<lparr>status = 400, success = False, message = Some ''Invalid menu item ID'',
                errors = None, payload = None\<rparr>)"
  using assms
  by (simp add: getSingleMenuItem_def editSingleMenuItem_def deleteSingleMenuItem_def failure_def)

theorem malformed_id_rejected_witness:
  "\<not> isObjectId ''categories-and-more''
   \<and> getSingleMenuItem \<lparr>docs = [], calls = []\<rparr> ''categories-and-more'' =
       (\<lparr>docs = [], calls = []\<rparr>,
        \<lparr>status = 400, success = False, message = Some ''Invalid menu item ID'',
         errors = None, payload = None\<rparr>)
   \<and> editSingleMenuItem (\<lambda>s i u. (s\<lparr>calls := calls s @ [FindByIdAndUpdate i]\<rparr>, Inr None))
         \<lparr>docs = [], calls = []\<rparr> ''categories-and-more''
         (empty_updates\<lparr>b_price := JNum 10\<rparr>) =
       (\<lparr>docs = [], calls = []\<rparr>,
        \<lparr>status = 400, success = False, message = Some ''Invalid menu item ID'',
         errors = None, payload = None\<rparr>)
   \<and> deleteSingleMenuItem \<lparr>docs = [], calls = []\<rparr> ''categories-and-more'' =
       (\<lparr>docs = [], calls = []\<rparr>,
        \<lparr>status = 400, success = False, message = Some ''Invalid menu item ID'',
         errors = None, payload = None\<rparr>)"
proof -
  have bad: "\<not> isObjectId ''categories-and-more''"
    by (simp add: isObjectId_def)
  from malformed_id_rejected [OF bad,
      where s = "\<lparr>docs = [], calls = []\<rparr>"
      and findByIdAndUpdate = "\<lambda>s i u. (s\<lparr>calls := calls s @ [FindByIdAndUpdate i]\<rparr>, Inr None)"
      and body = "empty_updates\<lparr>b_price := JNum 10\<rparr>"]
  show ?thesis using bad by simp
qed

section \<open>Users: properties\<close>

lemma trim_user_examples:
  "trim ''ada@example.com'' = ''ada@example.com''"
  "trim ''bob@example.com'' = ''bob@example.com''"
  "trim ''eve@example.com'' = ''eve@example.com''"
  "trim ''+2348012345678'' = ''+2348012345678''"
  "trim ''+15550100'' = ''+15550100''"
  "trim ''Eve'' = ''Eve''"
  "trim ''Bob'' = ''Bob''"
  "trim ''abc'' = ''abc''"
  "trim ''wrong-password'' = ''wrong-password''"
  "trim ''s3cret-pass'' = ''s3cret-pass''"
  by (simp_all add: trim_plain_ends plain_def)

lemma toLowerCase_examples:
  "toLowerCase ''ada@example.com'' = ''ada@example.com''"
  "toLowerCase ''bob@example.com'' = ''bob@example.com''"
  "toLowerCase ''eve@example.com'' = ''eve@example.com''"
  by (simp_all add: toLowerCase_def lower_char_def)

text \<open>
  C5 as stated fails: with Ada registered, a register request with her email and the
  password \<open>abc\<close> is answered 409, not 400.
\<close>

theorem short_password_conflict_counterexample:
  "js_length ''abc'' < 6
   \<and> status (snd (registerUser example_findOne example_hash \<lparr>docs = [ada], calls = []\<rparr> 1000
         ''64b7f1a2c3d4e5f6012345aa''
         \<lparr>rb_name = JStr ''Eve'', rb_email = JStr ''ada@example.com'',
          rb_phoneNumber = JStr ''+15550100'', rb_password = JStr ''abc'',
          rb_role = JUndefined\<rparr>)) = 409"
  by (simp add: registerUser_def validateInput_def blank_def truthy_def example_findOne_def
      as_string_def
      find_first_def ada_def failure_def trim_user_examples toLowerCase_examples Let_def
      js_length_def utf16_units_def)

text \<open>
  C5, amended. A register request whose password is a string of fewer than 6
  characters (UTF-16 code units, as \<open>password.length\<close> counts) never changes the
  stored users, and it is rejected: with 400 when one of the four fields is missing
  or blank; otherwise with 500 when the lookup of a registered user throws, with 409
  when the lookup finds a registered user with the same email or phone number, and
  with 400 when it finds none.
\<close>

theorem short_password_rejected:
  assumes "rb_password body = JStr password"
    and "js_length password < 6"
  shows "docs (fst (registerUser findOne hash s now newId body)) = docs s
       \<and> status (snd (registerUser findOne hash s now newId body)) =
           (if validateInput [(''name'', rb_name body), (''email'', rb_email body),
                              (''phoneNumber'', rb_phoneNumber body),
                              (''password'', rb_password body)] \<noteq> []
            then 400
            else (case findOne (docs s) (rb_email body) (rb_phoneNumber body) of
                    Inl err \<Rightarrow> 500
                  | Inr (Some existingUser) \<Rightarrow> 409
                  | Inr None \<Rightarrow> 400))"
proof -
  let ?errs = "validateInput [(''name'', rb_name body), (''email'', rb_email body),
                              (''phoneNumber'', rb_phoneNumber body),
                              (''password'', rb_password body)]"
  show ?thesis
  proof (cases "?errs = []")
    case False
    then show ?thesis
      by (simp add: registerUser_def validation_failure_def Let_def)
  next
    case True
    have short: "shorter_than_6 (rb_password body)"
      using assms by (simp add: shorter_than_6_def)
    show ?thesis
      using True short
      by (simp add: registerUser_def failure_def Let_def split: sum.splits option.splits)
  qed
qed

theorem short_password_rejected_witness:
  "rb_password \<lparr>rb_name = JStr ''Eve'', rb_email = JStr ''eve@example.com'',
          rb_phoneNumber = JStr ''+15550100'', rb_password = JStr ''abc'',
          rb_role = JUndefined\<rparr> = JStr ''abc''
   \<and> js_length ''abc'' < 6
   \<and> docs (fst (registerUser example_findOne example_hash \<lparr>docs = [ada], calls = []\<rparr> 1000
         ''64b7f1a2c3d4e5f6012345aa''
         \<lparr>rb_name = JStr ''Eve'', rb_email = JStr ''eve@example.com'',
          rb_phoneNumber = JStr ''+15550100'', rb_password = JStr ''abc'',
          rb_role = JUndefined\<rparr>)) = [ada]
   \<and> status (snd (registerUser example_findOne example_hash \<lparr>docs = [ada], calls = []\<rparr> 1000
         ''64b7f1a2c3d4e5f6012345aa''
         \<lparr>rb_name = JStr ''Eve'', rb_email = JStr ''eve@example.com'',
          rb_phoneNumber = JStr ''+15550100'', rb_password = JStr ''abc'',
          rb_role = JUndefined\<rparr>)) = 400
   \<and> status (snd (registerUser example_findOne example_hash \<lparr>docs = [ada], calls = []\<rparr> 1000
         ''64b7f1a2c3d4e5f6012345aa''
         \<lparr>rb_name = JStr ''Eve'', rb_email = JObject,
          rb_phoneNumber = JStr ''+15550100'', rb_password = JStr ''abc'',
          rb_role = JUndefined\<rparr>)) = 500"
proof -
  let ?body = "\<lparr>rb_name = JStr ''Eve'', rb_email = JStr ''eve@example.com'',
          rb_phoneNumber = JStr ''+15550100'', rb_password = JStr ''abc'',
          rb_role = JUndefined\<rparr>"
  let ?s = "\<lparr>docs = [ada], calls = []\<rparr>"
  have pw: "rb_password ?body = JStr ''abc''" by simp
  have short: "js_length ''abc'' < 6" by (simp add: js_length_def utf16_units_def)
  have valid: "validateInput [(''name'', rb_name ?body), (''email'', rb_email ?body),
                  (''phoneNumber'', rb_phoneNumber ?body), (''password'', rb_password ?body)] = []"
    by (simp add: validateInput_def blank_def truthy_def trim_user_examples)
  have free: "example_findOne (docs ?s) (rb_email ?body) (rb_phoneNumber ?body) = Inr None"
    by (simp add: example_findOne_def as_string_def find_first_def ada_def trim_user_examples
        toLowerCase_examples)
  from short_password_rejected
    [where body = ?body and password = "''abc''" and findOne = example_findOne
       and hash = example_hash and s = ?s and now = 1000
       and newId = "''64b7f1a2c3d4e5f6012345aa''", OF pw short]
  have first: "docs (fst (registerUser example_findOne example_hash ?s 1000
         ''64b7f1a2c3d4e5f6012345aa'' ?body)) = [ada]
       \<and> status (snd (registerUser example_findOne example_hash ?s 1000
         ''64b7f1a2c3d4e5f6012345aa'' ?body)) = 400"
    using valid free by simp
  let ?odd = "\<lparr>rb_name = JStr ''Eve'', rb_email = JObject,
          rb_phoneNumber = JStr ''+15550100'', rb_password = JStr ''abc'',
          rb_role = JUndefined\<rparr>"
  have pw': "rb_password ?odd = JStr ''abc''" by simp
  have valid': "validateInput [(''name'', rb_name ?odd), (''email'', rb_email ?odd),
                  (''phoneNumber'', rb_phoneNumber ?odd), (''password'', rb_password ?odd)] = []"
    by (simp add: validateInput_def blank_def truthy_def trim_user_examples)
  have throws: "example_findOne (docs ?s) (rb_email ?odd) (rb_phoneNumber ?odd) = Inl OtherError"
    by (simp add: example_findOne_def as_string_def)
  from short_password_rejected
    [where body = ?odd and password = "''abc''" and findOne = example_findOne
       and hash = example_hash and s = ?s and now = 1000
       and newId = "''64b7f1a2c3d4e5f6012345aa''", OF pw' short]
  have second: "status (snd (registerUser example_findOne example_hash ?s 1000
         ''64b7f1a2c3d4e5f6012345aa'' ?odd)) = 500"
    using valid' throws by simp
  show ?thesis using first second short by simp
qed

text \<open>
  When both passwords are strings that the comparison can judge: a login with an
  email that the lookup does not find, and a login with the email of an active
  account and a password that does not match, get the same response, 401 with the
  message "Invalid email or password" and nothing else.
\<close>

lemma login_failures_same_response:
  assumes "validateInput [(''email'', lb_email b1), (''password'', lb_password b1)] = []"
    and "validateInput [(''email'', lb_email b2), (''password'', lb_password b2)] = []"
    and "lb_email b1 = JStr e1" and "lb_email b2 = JStr e2"
    and "findOne (docs s1) (toLowerCase (trim e1)) = Inr None"
    and "findOne (docs s2) (toLowerCase (trim e2)) = Inr (Some user)"
    and "u_isActive user"
    and "compare (lb_password b2) (u_password user) = Inr False"
  shows "snd (login findOne compare s1 now1 b1) = snd (login findOne compare s2 now2 b2)
       \<and> snd (login findOne compare s1 now1 b1) =
           \<lparr>status = 401, success = False, message = Some ''Invalid email or password'',
            errors = None, payload = None\<rparr>"
  using assms by (simp add: login_def Let_def as_string_def failure_def)

text \<open>
  C8. With Ada registered and active, two login requests with the password 123456
  sent as a number: for an email that no account has the answer is 401 "Invalid
  email or password"; for Ada's email the comparison of the password throws and the
  answer is 500 "Internal server error during login". The two responses differ.
\<close>

theorem login_number_password_told_apart:
  "snd (login example_findOne_email example_compare \<lparr>docs = [ada], calls = []\<rparr> 1000
          \<lparr>lb_email = JStr ''bob@example.com'', lb_password = JNum 123456\<rparr>)
     = \<lparr>status = 401, success = False, message = Some ''Invalid email or password'',
        errors = None, payload = None\<rparr>
   \<and> snd (login example_findOne_email example_compare \<lparr>docs = [ada], calls = []\<rparr> 1000
          \<lparr>lb_email = JStr ''ada@example.com'', lb_password = JNum 123456\<rparr>)
     = \<lparr>status = 500, success = False,
        message = Some ''Internal server error during login'',
        errors = None, payload = None\<rparr>"
  by (simp add: login_def validateInput_def blank_def truthy_def as_string_def
      example_findOne_email_def find_first_def ada_def example_compare_def failure_def
      trim_user_examples toLowerCase_examples Let_def)

theorem login_number_password_told_apart_witness:
  "status (snd (login example_findOne_email example_compare \<lparr>docs = [ada], calls = []\<rparr> 1000
          \<lparr>lb_email = JStr ''bob@example.com'', lb_password = JNum 123456\<rparr>))
   \<noteq> status (snd (login example_findOne_email example_compare \<lparr>docs = [ada], calls = []\<rparr> 1000
          \<lparr>lb_email = JStr ''ada@example.com'', lb_password = JNum 123456\<rparr>))"
  using login_number_password_told_apart by simp

text \<open>
  C10. The register handler never reads a \<open>role\<close> field of the body: changing it
  changes neither the new store nor the response. Whenever the request is answered
  201, exactly one user was added, with role \<open>user\<close>, and both the token and the
  \<open>user\<close> object of the response carry role \<open>user\<close>. This holds whatever the lookup
  and the hash function do.
\<close>

theorem register_role_is_user:
  "registerUser findOne hash s now newId (body\<lparr>rb_role := role\<rparr>) =
     registerUser findOne hash s now newId body
   \<and> (status (snd (registerUser findOne hash s now newId body)) = 201 \<longrightarrow>
        (\<exists>newUser p.
            docs (fst (registerUser findOne hash s now newId body)) = docs s @ [newUser]
          \<and> u_role newUser = ''user''
          \<and> payload (snd (registerUser findOne hash s now newId body)) = Some p
          \<and> tk_role (pl_token p) = ''user''
          \<and> v_role (pl_user p) = ''user''))"
proof -
  have same: "registerUser findOne hash s now newId (body\<lparr>rb_role := role\<rparr>) =
              registerUser findOne hash s now newId body"
    by (simp add: registerUser_def Let_def)
  have created: "\<exists>newUser p.
            docs (fst (registerUser findOne hash s now newId body)) = docs s @ [newUser]
          \<and> u_role newUser = ''user''
          \<and> payload (snd (registerUser findOne hash s now newId body)) = Some p
          \<and> tk_role (pl_token p) = ''user''
          \<and> v_role (pl_user p) = ''user''"
    if ok: "status (snd (registerUser findOne hash s now newId body)) = 201"
  proof -
    let ?s1 = "s\<lparr>calls := calls s @ [FindOneWhere [rb_email body, rb_phoneNumber body]]\<rparr>"
    from ok obtain hashed n e p where
      steps: "hash (rb_password body) 12 = Inr hashed"
        "as_string (rb_name body) = Some n"
        "as_string (rb_email body) = Some e"
        "as_string (rb_phoneNumber body) = Some p"
      and reg: "registerUser findOne hash s now newId body =
        (case User_create ?s1 now newId
                \<lparr>ud_name = trim n, ud_email = toLowerCase (trim e),
                 ud_phoneNumber = trim p, ud_password = hashed, ud_role = ''user''\<rparr> of
           (s2, Inl err) \<Rightarrow> (s2, failure 500 ''Internal server error during registration'')
         | (s2, Inr newUser) \<Rightarrow>
             (s2,
              \<lparr>status = 201, success = True,
               message = Some ''User registered successfully'',
               errors = None,
               payload =
                 Some \<lparr>pl_token = generateToken now newUser,
                       pl_user =
                         \<lparr>v_id = u_id newUser, v_name = u_name newUser,
                          v_email = u_email newUser,
                          v_phoneNumber = u_phoneNumber newUser,
                          v_role = u_role newUser,
                          v_createdAt = Some (u_createdAt newUser),
                          v_lastLogin = None\<rparr>\<rparr>\<rparr>))"
      by (auto simp: registerUser_def Let_def failure_def validation_failure_def
          split: if_splits sum.splits option.splits)
    let ?data = "\<lparr>ud_name = trim n, ud_email = toLowerCase (trim e),
                  ud_phoneNumber = trim p, ud_password = hashed, ud_role = ''user''\<rparr>"
    obtain s2 r where c: "User_create ?s1 now newId ?data = (s2, r)"
      by (cases "User_create ?s1 now newId ?data")
    obtain newUser where r: "r = Inr newUser"
      using ok reg c by (cases r) (simp_all add: failure_def)
    have new: "newUser = User_new now newId ?data" "docs s2 = docs s @ [newUser]"
      using c r by (auto simp: User_create_def Let_def split: if_splits)
    have "u_role newUser = ''user''"
      using new(1) by (simp add: User_new_def)
    then show ?thesis
      using reg c r new(2) by (simp add: generateToken_def)
  qed
  show ?thesis
    using same created by blast
qed

theorem register_role_is_user_witness:
  "status (snd (registerUser example_findOne example_hash \<lparr>docs = [ada], calls = []\<rparr> 1000
         ''64b7f1a2c3d4e5f6012345aa''
         \<lparr>rb_name = JStr ''Bob'', rb_email = JStr ''bob@example.com'',
          rb_phoneNumber = JStr ''+15550100'', rb_password = JStr ''s3cret-pass'',
          rb_role = JStr ''admin''\<rparr>)) = 201
   \<and> (\<exists>newUser p.
          docs (fst (registerUser example_findOne example_hash \<lparr>docs = [ada], calls = []\<rparr> 1000
            ''64b7f1a2c3d4e5f6012345aa''
            \<lparr>rb_name = JStr ''Bob'', rb_email = JStr ''bob@example.com'',
             rb_phoneNumber = JStr ''+15550100'', rb_password = JStr ''s3cret-pass'',
             rb_role = JStr ''admin''\<rparr>)) = [ada, newUser]
        \<and> u_role newUser = ''user''
        \<and> payload (snd (registerUser example_findOne example_hash \<lparr>docs = [ada], calls = []\<rparr> 1000
            ''64b7f1a2c3d4e5f6012345aa''
            \<lparr>rb_name = JStr ''Bob'', rb_email = JStr ''bob@example.com'',
             rb_phoneNumber = JStr ''+15550100'', rb_password = JStr ''s3cret-pass'',
             rb_role = JStr ''admin''\<rparr>)) = Some p
        \<and> tk_role (pl_token p) = ''user''
        \<and> v_role (pl_user p) = ''user'')"
proof -
  let ?s = "\<lparr>docs = [ada], calls = []\<rparr>"
  let ?body = "\<lparr>rb_name = JStr ''Bob'', rb_email = JStr ''bob@example.com'',
          rb_phoneNumber = JStr ''+15550100'', rb_password = JStr ''s3cret-pass'',
          rb_role = JStr ''admin''\<rparr>"
  let ?data = "\<lparr>ud_name = ''Bob'', ud_email = ''bob@example.com'',
                ud_phoneNumber = ''+15550100'', ud_password = ''hash:s3cret-pass'',
                ud_role = ''user''\<rparr>"
  have e: "matches email_pattern ''bob@example.com''"
    by (simp add: email_pattern_def one_or_more_def optional_def word_char_def Let_def)
  have p: "matches phone_pattern ''+15550100''"
    by (simp add: phone_pattern_def optional_def digit_char_def eval_nat_numeral)
  have valid: "User_validate (User_new 1000 ''64b7f1a2c3d4e5f6012345aa'' ?data) = []"
    using e p
    by (simp add: User_validate_def User_new_def trim_user_examples toLowerCase_examples
        js_length_def utf16_units_def)
  have created: "\<exists>s2 d. User_create
        (\<lparr>docs = [ada],
          calls = [FindOneWhere [JStr ''bob@example.com'', JStr ''+15550100'']]\<rparr>)
                   1000 ''64b7f1a2c3d4e5f6012345aa'' ?data = (s2, Inr d)"
    using valid
    by (simp add: User_create_def Let_def)
       (simp add: User_new_def ada_def trim_user_examples toLowerCase_examples)
  have long: "\<not> shorter_than_6 (JStr ''s3cret-pass'')"
    by (simp add: shorter_than_6_def js_length_def utf16_units_def)
  have ok: "status (snd (registerUser example_findOne example_hash ?s 1000
               ''64b7f1a2c3d4e5f6012345aa'' ?body)) = 201"
    using created long
    by (auto simp: registerUser_def validateInput_def blank_def truthy_def example_findOne_def
        find_first_def ada_def example_hash_def as_string_def trim_user_examples
        toLowerCase_examples Let_def)
  from register_role_is_user
    [where findOne = example_findOne and hash = example_hash and s = ?s and now = 1000
       and newId = "''64b7f1a2c3d4e5f6012345aa''" and body = ?body and role = "JStr ''admin''"]
  show ?thesis using ok by simp
qed

end
